theory Spec2Isabelle
  imports Main
begin

section \<open>Domain model (src/types)\<close>

text \<open>
  The interfaces of \<^verbatim>\<open>types/label.ts\<close>, \<^verbatim>\<open>types/card.ts\<close>, \<^verbatim>\<open>types/lane.ts\<close> and
  \<^verbatim>\<open>types/project.ts\<close> as records. Field names carry a short prefix because several
  interfaces share the names \<^verbatim>\<open>id\<close>, \<^verbatim>\<open>title\<close>, \<^verbatim>\<open>order\<close>, \<^verbatim>\<open>createdAt\<close> and \<^verbatim>\<open>updatedAt\<close>.
  A JavaScript \<^verbatim>\<open>number\<close> that holds a version, an order or an index is an \<open>int\<close>;
  a value that may be \<^verbatim>\<open>null\<close> or absent is an \<open>option\<close>.

  The card types are parametric in the type of \<^verbatim>\<open>projectId\<close>: the reducer works on cards
  whose \<^verbatim>\<open>projectId\<close> is a string, the normalizer reads persisted cards whose
  \<^verbatim>\<open>projectId\<close> may be missing (\<^verbatim>\<open>Omit<Card, 'projectId'> & { projectId?: string }\<close>).
\<close>

record Label =
  label_id :: string
  label_name :: string
  label_color :: string

datatype CardType = Feature | Bug | Task | Story

datatype Priority = Low | Medium | High | Urgent

record 'p CardG =
  c_id :: string
  c_projectId :: 'p
  c_title :: string
  c_description :: string
  c_type :: CardType
  c_priority :: Priority
  c_dueDate :: "string option"
  c_labels :: "Label list"
  c_assignee :: "string option"
  c_laneId :: string
  c_order :: int
  c_isDeleted :: bool
  c_createdAt :: string
  c_updatedAt :: string

text \<open>\<^verbatim>\<open>CardVersion.data\<close>: every card field except \<^verbatim>\<open>id\<close>.\<close>

record 'p CardDataG =
  d_projectId :: 'p
  d_title :: string
  d_description :: string
  d_type :: CardType
  d_priority :: Priority
  d_dueDate :: "string option"
  d_labels :: "Label list"
  d_assignee :: "string option"
  d_laneId :: string
  d_order :: int
  d_isDeleted :: bool
  d_createdAt :: string
  d_updatedAt :: string

record 'p CardVersionG =
  v_id :: string
  v_cardId :: string
  v_version :: int
  v_data :: "'p CardDataG"
  v_timestamp :: string

type_synonym Card = "string CardG"
type_synonym CardData = "string CardDataG"
type_synonym CardVersion = "string CardVersionG"

record Lane =
  l_id :: string
  l_title :: string
  l_order :: int
  l_cardIds :: "string list"

text \<open>A project; \<open>'t\<close> is the type of \<^verbatim>\<open>title\<close> (a string, or possibly missing when persisted).\<close>

record 't ProjectG =
  p_id :: string
  p_title :: 't
  p_thumbnailUrl :: "string option"
  p_lanes :: "Lane list"
  p_createdAt :: string
  p_updatedAt :: string

type_synonym Project = "string ProjectG"

text \<open>\<^verbatim>\<open>DEFAULT_LANES\<close> of \<^verbatim>\<open>types/lane.ts\<close>: title, order and card ids, no id yet.\<close>

definition DEFAULT_LANES :: "(string \<times> int \<times> string list) list" where
  "DEFAULT_LANES = [(''Todo'', 0, []), (''Doing'', 1, []), (''Done'', 2, [])]"

section \<open>Board state and actions (context/BoardActions.ts)\<close>

record BoardState =
  projects :: "Project list"
  activeProjectId :: "string option"
  cards :: "string \<rightharpoonup> Card"
  cardVersions :: "string \<rightharpoonup> CardVersion list"
  isLoading :: bool
  error :: "string option"

text \<open>The payload of \<^verbatim>\<open>ADD_CARD\<close>:
  \<^verbatim>\<open>Omit<Card, 'id' | 'createdAt' | 'updatedAt' | 'isDeleted' | 'projectId'>\<close>.\<close>

record CardInput =
  i_title :: string
  i_description :: string
  i_type :: CardType
  i_priority :: Priority
  i_dueDate :: "string option"
  i_labels :: "Label list"
  i_assignee :: "string option"
  i_laneId :: string
  i_order :: int

text \<open>\<^verbatim>\<open>Partial<Card>\<close>, \<^verbatim>\<open>Partial<Lane>\<close> and \<^verbatim>\<open>Partial<Project>\<close>: \<open>None\<close> is a key
  that the patch does not have.\<close>

record CardUpdates =
  u_id :: "string option"
  u_projectId :: "string option"
  u_title :: "string option"
  u_description :: "string option"
  u_type :: "CardType option"
  u_priority :: "Priority option"
  u_dueDate :: "string option option"
  u_labels :: "Label list option"
  u_assignee :: "string option option"
  u_laneId :: "string option"
  u_order :: "int option"
  u_isDeleted :: "bool option"
  u_createdAt :: "string option"
  u_updatedAt :: "string option"

record LaneUpdates =
  lu_id :: "string option"
  lu_title :: "string option"
  lu_order :: "int option"
  lu_cardIds :: "string list option"

record ProjectUpdates =
  pu_id :: "string option"
  pu_title :: "string option"
  pu_thumbnailUrl :: "string option option"
  pu_lanes :: "Lane list option"
  pu_createdAt :: "string option"
  pu_updatedAt :: "string option"

text \<open>The tagged union \<^verbatim>\<open>BoardAction\<close>. \<open>UNKNOWN_ACTION\<close> stands for an object whose
  \<^verbatim>\<open>type\<close> is none of the known strings: the \<^verbatim>\<open>default\<close> branch of the switch.\<close>

datatype BoardAction =
    ADD_CARD CardInput
  | UPDATE_CARD string CardUpdates
  | DELETE_CARD string
  | RESTORE_CARD string
  | MOVE_CARD string string int
  | REORDER_CARDS string "string list"
  | UNDO_CARD string
  | ADD_LANE string
  | UPDATE_LANE string LaneUpdates
  | DELETE_LANE string
  | REORDER_LANES "string list"
  | ADD_PROJECT string "string option"
  | UPDATE_PROJECT string ProjectUpdates
  | DELETE_PROJECT string
  | SET_ACTIVE_PROJECT string
  | LOAD_STATE BoardState
  | SET_ERROR "string option"
  | UNKNOWN_ACTION string

section \<open>The environment of one call\<close>

text \<open>
  The reducer reads the clock (\<^verbatim>\<open>new Date().toISOString()\<close>) and draws ids from
  \<^verbatim>\<open>generateId\<close> of the module \<^verbatim>\<open>utils\<close>. Both are parameters of the model, so that it
  is a function of its arguments: \<open>now\<close> is the clock read at the entry of the reducer,
  \<open>clock k\<close> the \<open>k\<close>-th later read of the clock during the same call, and \<open>ids k\<close> the
  result of the \<open>k\<close>-th call of \<^verbatim>\<open>generateId\<close> during the call.
\<close>

record Env =
  now :: string
  clock :: "nat \<Rightarrow> string"
  ids :: "nat \<Rightarrow> string"

text \<open>
  What a call yields when it does not return a \<^verbatim>\<open>BoardState\<close>: \<open>TypeError\<close> is the exception
  thrown by reading a property of \<^verbatim>\<open>undefined\<close>, calling a value that is no function or
  spreading a value that is not iterable. \<open>NotABoardState\<close> is no exception: the call
  returns, but the object it returns holds a card or a version without the fields of
  its interface, or a \<^verbatim>\<open>cards\<close> object whose prototype was replaced, so it is no value of
  the record types above.
\<close>

datatype error = TypeError | NotABoardState

section \<open>Property lookup on plain objects\<close>

text \<open>
  \<^verbatim>\<open>state.cards\<close> and \<^verbatim>\<open>state.cardVersions\<close> are plain objects (object literals, spreads,
  \<^verbatim>\<open>Object.fromEntries\<close>, parsed JSON), so \<^verbatim>\<open>obj[key]\<close> finds the members of
  \<^verbatim>\<open>Object.prototype\<close> under their names when the object has no entry of its own.
  \<open>objectPrototype\<close> lists these names: for a function its \<^verbatim>\<open>length\<close>, and \<open>None\<close> for
  \<^verbatim>\<open>__proto__\<close>, whose getter yields \<^verbatim>\<open>Object.prototype\<close> itself, an object with no
  \<^verbatim>\<open>length\<close>. None of these values has a property named like a field of a card, none has
  an index property, and none is iterable.
\<close>

definition objectPrototype :: "string \<rightharpoonup> nat option" where
  "objectPrototype =
     map_of [(''constructor'', Some 1), (''__defineGetter__'', Some 2),
             (''__defineSetter__'', Some 2), (''hasOwnProperty'', Some 1),
             (''__lookupGetter__'', Some 1), (''__lookupSetter__'', Some 1),
             (''isPrototypeOf'', Some 1), (''propertyIsEnumerable'', Some 1),
             (''toString'', Some 0), (''valueOf'', Some 0), (''toLocaleString'', Some 0),
             (''__proto__'', None)]"

text \<open>The value of \<^verbatim>\<open>obj[key]\<close>: an entry of the object's own, an inherited member (never
  falsy), or \<^verbatim>\<open>undefined\<close>.\<close>

datatype 'a property = Own 'a | Inherited "nat option" | Absent

definition jsGet :: "(string \<rightharpoonup> 'a) \<Rightarrow> string \<Rightarrow> 'a property" where
  "jsGet obj k =
     (case obj k of
        Some v \<Rightarrow> Own v
      | None \<Rightarrow> (case objectPrototype k of Some f \<Rightarrow> Inherited f | None \<Rightarrow> Absent))"

definition truthy :: "'a property \<Rightarrow> bool" where
  "truthy x = (case x of Absent \<Rightarrow> False | _ \<Rightarrow> True)"

definition inherited :: "'a property \<Rightarrow> bool" where
  "inherited x = (case x of Inherited _ \<Rightarrow> True | _ \<Rightarrow> False)"

text \<open>\<^verbatim>\<open>obj[key]\<close> is an inherited function with a positive \<^verbatim>\<open>length\<close>: the object has no
  entry under the key, and the key is one of \<^verbatim>\<open>constructor\<close>, \<^verbatim>\<open>hasOwnProperty\<close>,
  \<^verbatim>\<open>isPrototypeOf\<close>, \<^verbatim>\<open>propertyIsEnumerable\<close>, \<^verbatim>\<open>__defineGetter__\<close>, \<^verbatim>\<open>__defineSetter__\<close>,
  \<^verbatim>\<open>__lookupGetter__\<close> and \<^verbatim>\<open>__lookupSetter__\<close>.\<close>

definition inheritsArity :: "(string \<rightharpoonup> 'a) \<Rightarrow> string \<Rightarrow> bool" where
  "inheritsArity obj k = (case jsGet obj k of Inherited (Some n) \<Rightarrow> 0 < n | _ \<Rightarrow> False)"

text \<open>\<^verbatim>\<open>obj[key]\<close> is an entry of the object's own or \<^verbatim>\<open>undefined\<close>: the key is no name of
  \<^verbatim>\<open>Object.prototype\<close>, or the object has an entry under it.\<close>

definition plainKey :: "(string \<rightharpoonup> 'a) \<Rightarrow> string \<Rightarrow> bool" where
  "plainKey obj k = (\<not> inherited (jsGet obj k))"

section \<open>The reducer (context/BoardReducer.ts)\<close>

text \<open>\<^verbatim>\<open>Math.max(x, ...xs)\<close> on a non-empty argument list.\<close>

definition js_max :: "int \<Rightarrow> int list \<Rightarrow> int" where
  "js_max x xs = fold max xs x"

definition cardData :: "Card \<Rightarrow> CardData" where
  "cardData c =
     \<lparr> d_projectId = c_projectId c, d_title = c_title c,
       d_description = c_description c, d_type = c_type c,
       d_priority = c_priority c, d_dueDate = c_dueDate c,
       d_labels = c_labels c, d_assignee = c_assignee c,
       d_laneId = c_laneId c, d_order = c_order c,
       d_isDeleted = c_isDeleted c, d_createdAt = c_createdAt c,
       d_updatedAt = c_updatedAt c \<rparr>"

text \<open>\<^verbatim>\<open>state.cardVersions[id] || []\<close>: an array, or an inherited member of
  \<^verbatim>\<open>Object.prototype\<close> (with its \<^verbatim>\<open>length\<close>, if it has one).\<close>

datatype versionsValue = Array "CardVersion list" | Foreign "nat option"

text \<open>
  \<^verbatim>\<open>existingVersions.length > 0 ? Math.max(...existingVersions.map(v => v.version)) + 1 : 1\<close>.
  An inherited function of positive \<^verbatim>\<open>length\<close> has no \<^verbatim>\<open>map\<close>, and the call throws; for a
  \<^verbatim>\<open>length\<close> that is 0 or \<^verbatim>\<open>undefined\<close> the test fails and the number is 1.
\<close>

definition nextNumber :: "CardVersion list \<Rightarrow> int" where
  "nextNumber existingVersions =
     (case existingVersions of
        [] \<Rightarrow> 1
      | v # vs \<Rightarrow> js_max (v_version v) (map v_version vs) + 1)"

definition nextVersion :: "versionsValue \<Rightarrow> error + int" where
  "nextVersion existingVersions =
     (case existingVersions of
        Array vs \<Rightarrow> Inr (nextNumber vs)
      | Foreign (Some n) \<Rightarrow> if 0 < n then Inl TypeError else Inr 1
      | Foreign None \<Rightarrow> Inr 1)"

text \<open>The object literal that \<^verbatim>\<open>createCardVersion\<close> returns for a card with all its
  fields.\<close>

definition snapshot :: "Env \<Rightarrow> Card \<Rightarrow> int \<Rightarrow> CardVersion" where
  "snapshot e c n =
     \<lparr> v_id = ids e 0, v_cardId = c_id c, v_version = n, v_data = cardData c,
       v_timestamp = clock e 0 \<rparr>"

text \<open>
  \<^verbatim>\<open>createCardVersion(card, existingVersions)\<close>. The card argument is \<^verbatim>\<open>state.cards[id]\<close>,
  which the callers have tested to be truthy. When it is an inherited member, every
  field read from it is \<^verbatim>\<open>undefined\<close> and the object returned is no \<^verbatim>\<open>CardVersion\<close>:
  \<open>None\<close>.
\<close>

definition createCardVersion ::
  "Env \<Rightarrow> Card property \<Rightarrow> versionsValue \<Rightarrow> error + CardVersion option" where
  "createCardVersion e c existingVersions =
     (case nextVersion existingVersions of
        Inl err \<Rightarrow> Inl err
      | Inr n \<Rightarrow> Inr (case c of Own c' \<Rightarrow> Some (snapshot e c' n) | _ \<Rightarrow> None))"

text \<open>\<^verbatim>\<open>[...existingVersions, newVersion]\<close>: spreading an inherited member, which is not
  iterable, throws.\<close>

definition appendVersion :: "versionsValue \<Rightarrow> CardVersion option \<Rightarrow> error + CardVersion list" where
  "appendVersion existingVersions newVersion =
     (case existingVersions of
        Foreign _ \<Rightarrow> Inl TypeError
      | Array vs \<Rightarrow> (case newVersion of None \<Rightarrow> Inl NotABoardState | Some v \<Rightarrow> Inr (vs @ [v])))"

text \<open>\<^verbatim>\<open>createDefaultLanes\<close>; the ids are drawn from position \<open>k\<close> of the supply on.\<close>

definition createDefaultLanes :: "Env \<Rightarrow> nat \<Rightarrow> Lane list" where
  "createDefaultLanes e k =
     map (\<lambda>(i, (t, ord, cs)). \<lparr> l_id = ids e (k + i), l_title = t, l_order = ord, l_cardIds = cs \<rparr>)
         (enumerate 0 DEFAULT_LANES)"

text \<open>\<^verbatim>\<open>!state.activeProjectId\<close> holds for \<^verbatim>\<open>null\<close> and for the empty string.\<close>

definition getActiveProject :: "BoardState \<Rightarrow> Project option" where
  "getActiveProject state =
     (case activeProjectId state of
        None \<Rightarrow> None
      | Some a \<Rightarrow> if a = [] then None else find (\<lambda>project. p_id project = a) (projects state))"

definition mapActiveProject :: "BoardState \<Rightarrow> (Project \<Rightarrow> Project) \<Rightarrow> Project list option" where
  "mapActiveProject state updater =
     (case getActiveProject state of
        None \<Rightarrow> None
      | Some activeProject \<Rightarrow>
          Some (map (\<lambda>project. if p_id project = p_id activeProject
                                then updater activeProject else project)
                    (projects state)))"

text \<open>\<^verbatim>\<open>mapActiveProject(...) ?? state.projects\<close>.\<close>

definition mapActiveProjectOr :: "BoardState \<Rightarrow> (Project \<Rightarrow> Project) \<Rightarrow> Project list" where
  "mapActiveProjectOr state updater =
     (case mapActiveProject state updater of None \<Rightarrow> projects state | Some ps \<Rightarrow> ps)"

text \<open>\<^verbatim>\<open>state.cardVersions[id] || []\<close>.\<close>

definition existingVersionsOf :: "BoardState \<Rightarrow> string \<Rightarrow> versionsValue" where
  "existingVersionsOf state k =
     (case jsGet (cardVersions state) k of
        Own vs \<Rightarrow> Array vs
      | Inherited f \<Rightarrow> Foreign f
      | Absent \<Rightarrow> Array [])"

text \<open>\<^verbatim>\<open>{ ...existingCard, ...updates }\<close>.\<close>

definition orElse :: "'a option \<Rightarrow> 'a \<Rightarrow> 'a" where
  "orElse x d = (case x of None \<Rightarrow> d | Some y \<Rightarrow> y)"

definition mergeCard :: "Card \<Rightarrow> CardUpdates \<Rightarrow> Card" where
  "mergeCard c u =
     \<lparr> c_id = orElse (u_id u) (c_id c),
       c_projectId = orElse (u_projectId u) (c_projectId c),
       c_title = orElse (u_title u) (c_title c),
       c_description = orElse (u_description u) (c_description c),
       c_type = orElse (u_type u) (c_type c),
       c_priority = orElse (u_priority u) (c_priority c),
       c_dueDate = orElse (u_dueDate u) (c_dueDate c),
       c_labels = orElse (u_labels u) (c_labels c),
       c_assignee = orElse (u_assignee u) (c_assignee c),
       c_laneId = orElse (u_laneId u) (c_laneId c),
       c_order = orElse (u_order u) (c_order c),
       c_isDeleted = orElse (u_isDeleted u) (c_isDeleted c),
       c_createdAt = orElse (u_createdAt u) (c_createdAt c),
       c_updatedAt = orElse (u_updatedAt u) (c_updatedAt c) \<rparr>"

definition mergeLane :: "Lane \<Rightarrow> LaneUpdates \<Rightarrow> Lane" where
  "mergeLane lane u =
     \<lparr> l_id = orElse (lu_id u) (l_id lane), l_title = orElse (lu_title u) (l_title lane),
       l_order = orElse (lu_order u) (l_order lane),
       l_cardIds = orElse (lu_cardIds u) (l_cardIds lane) \<rparr>"

definition mergeProject :: "Project \<Rightarrow> ProjectUpdates \<Rightarrow> Project" where
  "mergeProject project u =
     \<lparr> p_id = orElse (pu_id u) (p_id project), p_title = orElse (pu_title u) (p_title project),
       p_thumbnailUrl = orElse (pu_thumbnailUrl u) (p_thumbnailUrl project),
       p_lanes = orElse (pu_lanes u) (p_lanes project),
       p_createdAt = orElse (pu_createdAt u) (p_createdAt project),
       p_updatedAt = orElse (pu_updatedAt u) (p_updatedAt project) \<rparr>"

text \<open>\<^verbatim>\<open>{ id: cardId, ...previousVersion.data }\<close>.\<close>

definition cardOfData :: "string \<Rightarrow> CardData \<Rightarrow> Card" where
  "cardOfData cardId d =
     \<lparr> c_id = cardId, c_projectId = d_projectId d, c_title = d_title d,
       c_description = d_description d, c_type = d_type d, c_priority = d_priority d,
       c_dueDate = d_dueDate d, c_labels = d_labels d, c_assignee = d_assignee d,
       c_laneId = d_laneId d, c_order = d_order d, c_isDeleted = d_isDeleted d,
       c_createdAt = d_createdAt d, c_updatedAt = d_updatedAt d \<rparr>"

text \<open>\<^verbatim>\<open>xs.splice(toIndex, 0, x)\<close>: a negative index counts from the end, an index
  outside the array is clamped to its bounds.\<close>

definition splice_insert :: "int \<Rightarrow> 'a \<Rightarrow> 'a list \<Rightarrow> 'a list" where
  "splice_insert toIndex x xs =
     (let len = int (length xs);
          start = (if toIndex < 0 then max (len + toIndex) 0 else min toIndex len)
      in take (nat start) xs @ [x] @ drop (nat start) xs)"

text \<open>The loop of \<^verbatim>\<open>DELETE_LANE\<close> over the card ids of the deleted lane, when each
  \<^verbatim>\<open>updatedCards[cardId]\<close> is a card of the object's own or \<^verbatim>\<open>undefined\<close>.\<close>

definition relaneCards ::
  "string \<Rightarrow> string \<Rightarrow> string list \<Rightarrow> (string \<rightharpoonup> Card) \<Rightarrow> (string \<rightharpoonup> Card)" where
  "relaneCards laneId t cardIds cs =
     fold (\<lambda>cardId updatedCards.
             case updatedCards cardId of
               None \<Rightarrow> updatedCards
             | Some c \<Rightarrow> updatedCards(cardId \<mapsto> c\<lparr>c_laneId := laneId, c_updatedAt := t\<rparr>))
          cardIds cs"

text \<open>\<^verbatim>\<open>new Map(lanes.map(l => [l.id, l])).get(id)\<close>: of two lanes with one id the later wins.\<close>

definition laneMapGet :: "Lane list \<Rightarrow> string \<Rightarrow> Lane option" where
  "laneMapGet lanes k = find (\<lambda>l. l_id l = k) (rev lanes)"

text \<open>
  \<^verbatim>\<open>boardReducer\<close>, one equation for each \<^verbatim>\<open>case\<close> of the switch. The result is \<open>Inr\<close>
  of the returned state, \<open>Inl TypeError\<close> where the JavaScript throws, and
  \<open>Inl NotABoardState\<close> where it returns an object that is no \<^verbatim>\<open>BoardState\<close>.

  In \<^verbatim>\<open>UPDATE_CARD\<close>, \<^verbatim>\<open>DELETE_CARD\<close> and \<^verbatim>\<open>MOVE_CARD\<close> the value of \<^verbatim>\<open>state.cards[id]\<close> may
  be an inherited member. Then every field read from it is \<^verbatim>\<open>undefined\<close>, its spread adds
  nothing, and no lane's id equals its \<^verbatim>\<open>laneId\<close>; the card and the version built from it
  lack their fields, so the object returned at the end is no \<^verbatim>\<open>BoardState\<close>. The order of
  the source is kept: \<^verbatim>\<open>createCardVersion\<close> runs first, then the test for the active
  project, then the object literal with the spread of \<^verbatim>\<open>existingVersions\<close>.

  In \<^verbatim>\<open>RESTORE_CARD\<close> an inherited member has no \<^verbatim>\<open>isDeleted\<close>, and the state is returned.
  In \<^verbatim>\<open>UNDO_CARD\<close> an inherited member in the place of the history has a \<^verbatim>\<open>length\<close> of 0,
  or no element at index \<^verbatim>\<open>length - 1\<close>, and the state is returned; an inherited member
  in the place of the current card has a \<^verbatim>\<open>laneId\<close> of \<^verbatim>\<open>undefined\<close>, which differs from
  the restored one and equals no lane's id. In the loop of \<^verbatim>\<open>DELETE_LANE\<close> an inherited
  member is truthy: \<^verbatim>\<open>firstLane.id\<close> is read, and what the assignment stores is no card
  (under \<^verbatim>\<open>__proto__\<close> it replaces the prototype of the copy of \<^verbatim>\<open>cards\<close>).
\<close>

fun boardReducer :: "Env \<Rightarrow> BoardState \<Rightarrow> BoardAction \<Rightarrow> error + BoardState" where
  "boardReducer e state (ADD_CARD payload) =
     (case getActiveProject state of
        None \<Rightarrow> Inr state
      | Some activeProject \<Rightarrow>
          let newCard =
                \<lparr> c_id = ids e 0, c_projectId = p_id activeProject, c_title = i_title payload,
                  c_description = i_description payload, c_type = i_type payload,
                  c_priority = i_priority payload, c_dueDate = i_dueDate payload,
                  c_labels = i_labels payload, c_assignee = i_assignee payload,
                  c_laneId = i_laneId payload, c_order = i_order payload,
                  c_isDeleted = False, c_createdAt = now e, c_updatedAt = now e \<rparr>;
              updatedLanes =
                map (\<lambda>lane. if l_id lane = i_laneId payload
                            then lane\<lparr>l_cardIds := l_cardIds lane @ [c_id newCard]\<rparr>
                            else lane)
                    (p_lanes activeProject)
          in (case mapActiveProject state
                     (\<lambda>project. project\<lparr>p_lanes := updatedLanes, p_updatedAt := now e\<rparr>) of
                None \<Rightarrow> Inr state
              | Some updatedProjects \<Rightarrow>
                  Inr (state\<lparr>cards := (cards state)(c_id newCard \<mapsto> newCard),
                             projects := updatedProjects\<rparr>)))"
| "boardReducer e state (UPDATE_CARD k updates) =
     (case jsGet (cards state) k of
        Absent \<Rightarrow> Inr state
      | existingCard \<Rightarrow>
          let existingVersions = existingVersionsOf state k
          in (case createCardVersion e existingCard existingVersions of
                Inl err \<Rightarrow> Inl err
              | Inr newVersion \<Rightarrow>
                  (case mapActiveProject state (\<lambda>project. project\<lparr>p_updatedAt := now e\<rparr>) of
                     None \<Rightarrow> Inr state
                   | Some updatedProjects \<Rightarrow>
                       (case appendVersion existingVersions newVersion of
                          Inl err \<Rightarrow> Inl err
                        | Inr versions \<Rightarrow>
                            (case existingCard of
                               Own c \<Rightarrow>
                                 Inr (state\<lparr>cards := (cards state)
                                               (k \<mapsto> (mergeCard c updates)\<lparr>c_updatedAt := now e\<rparr>),
                                            cardVersions := (cardVersions state)(k \<mapsto> versions),
                                            projects := updatedProjects\<rparr>)
                             | _ \<Rightarrow> Inl NotABoardState)))))"
| "boardReducer e state (DELETE_CARD k) =
     (case jsGet (cards state) k of
        Absent \<Rightarrow> Inr state
      | existingCard \<Rightarrow>
          let existingVersions = existingVersionsOf state k
          in (case createCardVersion e existingCard existingVersions of
                Inl err \<Rightarrow> Inl err
              | Inr newVersion \<Rightarrow>
                  (case getActiveProject state of
                     None \<Rightarrow> Inr state
                   | Some activeProject \<Rightarrow>
                       (case appendVersion existingVersions newVersion of
                          Inl err \<Rightarrow> Inl err
                        | Inr versions \<Rightarrow>
                            (case existingCard of
                               Own c \<Rightarrow>
                                 let updatedCard = c\<lparr>c_isDeleted := True, c_updatedAt := now e\<rparr>;
                                     updatedLanes =
                                       map (\<lambda>lane. if l_id lane = c_laneId c
                                                   then lane\<lparr>l_cardIds :=
                                                          filter (\<lambda>cardId. cardId \<noteq> k) (l_cardIds lane)\<rparr>
                                                   else lane)
                                           (p_lanes activeProject)
                                 in Inr (state\<lparr>cards := (cards state)(k \<mapsto> updatedCard),
                                               cardVersions := (cardVersions state)(k \<mapsto> versions),
                                               projects := mapActiveProjectOr state
                                                 (\<lambda>project. project\<lparr>p_lanes := updatedLanes,
                                                                    p_updatedAt := now e\<rparr>)\<rparr>)
                             | _ \<Rightarrow> Inl NotABoardState)))))"
| "boardReducer e state (RESTORE_CARD k) =
     (case jsGet (cards state) k of
        Own existingCard \<Rightarrow>
          if \<not> c_isDeleted existingCard then Inr state
          else
            let restoredCard = existingCard\<lparr>c_isDeleted := False, c_updatedAt := now e\<rparr>
            in (case getActiveProject state of
                  None \<Rightarrow> Inr state
                | Some activeProject \<Rightarrow>
                    let updatedLanes =
                          map (\<lambda>lane. if l_id lane = c_laneId existingCard
                                      then lane\<lparr>l_cardIds := l_cardIds lane @ [k]\<rparr>
                                      else lane)
                              (p_lanes activeProject)
                    in Inr (state\<lparr>cards := (cards state)(k \<mapsto> restoredCard),
                                  projects := mapActiveProjectOr state
                                    (\<lambda>project. project\<lparr>p_lanes := updatedLanes, p_updatedAt := now e\<rparr>)\<rparr>))
      | _ \<Rightarrow> Inr state)"
| "boardReducer e state (MOVE_CARD cardId toLaneId toIndex) =
     (case jsGet (cards state) cardId of
        Absent \<Rightarrow> Inr state
      | existingCard \<Rightarrow>
          let existingVersions = existingVersionsOf state cardId
          in (case createCardVersion e existingCard existingVersions of
                Inl err \<Rightarrow> Inl err
              | Inr newVersion \<Rightarrow>
                  (case getActiveProject state of
                     None \<Rightarrow> Inr state
                   | Some activeProject \<Rightarrow>
                       (case appendVersion existingVersions newVersion of
                          Inl err \<Rightarrow> Inl err
                        | Inr versions \<Rightarrow>
                            (case existingCard of
                               Own c \<Rightarrow>
                                 let fromLaneId = c_laneId c;
                                     updatedCard = c\<lparr>c_laneId := toLaneId, c_updatedAt := now e\<rparr>;
                                     updatedLanes =
                                       map (\<lambda>lane.
                                              if l_id lane = fromLaneId \<and> fromLaneId \<noteq> toLaneId
                                              then lane\<lparr>l_cardIds :=
                                                     filter (\<lambda>x. x \<noteq> cardId) (l_cardIds lane)\<rparr>
                                              else if l_id lane = toLaneId
                                              then lane\<lparr>l_cardIds :=
                                                     splice_insert toIndex cardId
                                                       (filter (\<lambda>x. x \<noteq> cardId) (l_cardIds lane))\<rparr>
                                              else lane)
                                           (p_lanes activeProject)
                                 in Inr (state\<lparr>cards := (cards state)(cardId \<mapsto> updatedCard),
                                               cardVersions := (cardVersions state)(cardId \<mapsto> versions),
                                               projects := mapActiveProjectOr state
                                                 (\<lambda>project. project\<lparr>p_lanes := updatedLanes,
                                                                    p_updatedAt := now e\<rparr>)\<rparr>)
                             | _ \<Rightarrow> Inl NotABoardState)))))"
| "boardReducer e state (REORDER_CARDS laneId cardIds) =
     (case getActiveProject state of
        None \<Rightarrow> Inr state
      | Some activeProject \<Rightarrow>
          let updatedLanes =
                map (\<lambda>lane. if l_id lane = laneId then lane\<lparr>l_cardIds := cardIds\<rparr> else lane)
                    (p_lanes activeProject)
          in Inr (state\<lparr>projects := mapActiveProjectOr state
                          (\<lambda>project. project\<lparr>p_lanes := updatedLanes, p_updatedAt := now e\<rparr>)\<rparr>))"
| "boardReducer e state (UNDO_CARD cardId) =
     (case jsGet (cardVersions state) cardId of
        Own versions \<Rightarrow>
          if versions = [] then Inr state
          else
            let previousVersion = last versions;
                restoredCard = (cardOfData cardId (v_data previousVersion))\<lparr>c_updatedAt := now e\<rparr>;
                currentCard = jsGet (cards state) cardId
            in (case getActiveProject state of
                  None \<Rightarrow> Inr state
                | Some activeProject \<Rightarrow>
                    let updatedLanes =
                          (case currentCard of
                             Absent \<Rightarrow> p_lanes activeProject
                           | Own cur \<Rightarrow>
                               if c_laneId cur \<noteq> c_laneId restoredCard
                               then map (\<lambda>lane.
                                           if l_id lane = c_laneId cur
                                           then lane\<lparr>l_cardIds := filter (\<lambda>x. x \<noteq> cardId) (l_cardIds lane)\<rparr>
                                           else if l_id lane = c_laneId restoredCard
                                           then lane\<lparr>l_cardIds := l_cardIds lane @ [cardId]\<rparr>
                                           else lane)
                                        (p_lanes activeProject)
                               else p_lanes activeProject
                           | Inherited _ \<Rightarrow>
                               map (\<lambda>lane.
                                      if l_id lane = c_laneId restoredCard
                                      then lane\<lparr>l_cardIds := l_cardIds lane @ [cardId]\<rparr>
                                      else lane)
                                   (p_lanes activeProject));
                        remainingVersions = butlast versions
                    in Inr (state\<lparr>cards := (cards state)(cardId \<mapsto> restoredCard),
                                  cardVersions := (cardVersions state)(cardId \<mapsto> remainingVersions),
                                  projects := mapActiveProjectOr state
                                    (\<lambda>project. project\<lparr>p_lanes := updatedLanes, p_updatedAt := now e\<rparr>)\<rparr>))
      | _ \<Rightarrow> Inr state)"
| "boardReducer e state (ADD_LANE title) =
     (case getActiveProject state of
        None \<Rightarrow> Inr state
      | Some activeProject \<Rightarrow>
          let maxOrder = js_max (- 1) (map l_order (p_lanes activeProject));
              newLane = \<lparr> l_id = ids e 0, l_title = title, l_order = maxOrder + 1, l_cardIds = [] \<rparr>
          in Inr (state\<lparr>projects := mapActiveProjectOr state
                          (\<lambda>project. project\<lparr>p_lanes := p_lanes activeProject @ [newLane],
                                             p_updatedAt := now e\<rparr>)\<rparr>))"
| "boardReducer e state (UPDATE_LANE k updates) =
     (case getActiveProject state of
        None \<Rightarrow> Inr state
      | Some activeProject \<Rightarrow>
          let updatedLanes =
                map (\<lambda>lane. if l_id lane = k then mergeLane lane updates else lane)
                    (p_lanes activeProject)
          in Inr (state\<lparr>projects := mapActiveProjectOr state
                          (\<lambda>project. project\<lparr>p_lanes := updatedLanes, p_updatedAt := now e\<rparr>)\<rparr>))"
| "boardReducer e state (DELETE_LANE k) =
     (case getActiveProject state of
        None \<Rightarrow> Inr state
      | Some activeProject \<Rightarrow>
          if length (p_lanes activeProject) \<le> 1
          then Inr (state\<lparr>error := Some ''Cannot delete the last lane''\<rparr>)
          else
            (case find (\<lambda>l. l_id l = k) (p_lanes activeProject) of
               None \<Rightarrow> Inr state
             | Some laneToDelete \<Rightarrow>
                 (case filter (\<lambda>l. l_id l \<noteq> k) (p_lanes activeProject) of
                    [] \<Rightarrow>
                      if list_ex (\<lambda>cardId. truthy (jsGet (cards state) cardId))
                           (l_cardIds laneToDelete)
                      then Inl TypeError
                      else Inr (state\<lparr>projects := mapActiveProjectOr state
                                      (\<lambda>project. project\<lparr>p_lanes := [], p_updatedAt := now e\<rparr>)\<rparr>)
                  | firstLane # rest \<Rightarrow>
                      if list_ex (\<lambda>cardId. inherited (jsGet (cards state) cardId))
                           (l_cardIds laneToDelete)
                      then Inl NotABoardState
                      else
                        let remainingLanes = firstLane # rest;
                            updatedCards =
                              relaneCards (l_id firstLane) (now e) (l_cardIds laneToDelete)
                                (cards state);
                            updatedLanes =
                              map (\<lambda>(index, lane).
                                     if l_id lane = l_id firstLane
                                     then lane\<lparr>l_cardIds := l_cardIds lane @ l_cardIds laneToDelete,
                                               l_order := int index\<rparr>
                                     else lane\<lparr>l_order := int index\<rparr>)
                                  (enumerate 0 remainingLanes)
                        in Inr (state\<lparr>cards := updatedCards,
                                      projects := mapActiveProjectOr state
                                        (\<lambda>project. project\<lparr>p_lanes := updatedLanes,
                                                           p_updatedAt := now e\<rparr>)\<rparr>))))"
| "boardReducer e state (REORDER_LANES laneIds) =
     (case getActiveProject state of
        None \<Rightarrow> Inr state
      | Some activeProject \<Rightarrow>
          let reorderedLanes =
                List.map_filter
                  (\<lambda>(index, k). map_option (\<lambda>lane. lane\<lparr>l_order := int index\<rparr>)
                                          (laneMapGet (p_lanes activeProject) k))
                  (enumerate 0 laneIds)
          in Inr (state\<lparr>projects := mapActiveProjectOr state
                          (\<lambda>project. project\<lparr>p_lanes := reorderedLanes, p_updatedAt := now e\<rparr>)\<rparr>))"
| "boardReducer e state (ADD_PROJECT title thumbnailUrl) =
     (let newProject =
            \<lparr> p_id = ids e 0, p_title = title, p_thumbnailUrl = thumbnailUrl,
              p_lanes = createDefaultLanes e 1, p_createdAt = now e, p_updatedAt = now e \<rparr>
      in Inr (state\<lparr>projects := projects state @ [newProject],
                    activeProjectId := Some (p_id newProject)\<rparr>))"
| "boardReducer e state (UPDATE_PROJECT k updates) =
     Inr (state\<lparr>projects :=
            map (\<lambda>project. if p_id project = k
                           then (mergeProject project updates)\<lparr>p_updatedAt := now e\<rparr>
                           else project)
                (projects state)\<rparr>)"
| "boardReducer e state (DELETE_PROJECT k) =
     (let remainingProjects = filter (\<lambda>project. p_id project \<noteq> k) (projects state)
      in if length remainingProjects = length (projects state) then Inr state
         else if length remainingProjects = 0
         then Inr (state\<lparr>error := Some ''Cannot delete the last project''\<rparr>)
         else
           let updatedCards =
                 (\<lambda>cardId. case cards state cardId of
                              None \<Rightarrow> None
                            | Some c \<Rightarrow> if c_projectId c = k then None else Some c);
               updatedVersions =
                 (\<lambda>cardId. case cards state cardId of
                              None \<Rightarrow> cardVersions state cardId
                            | Some c \<Rightarrow> if c_projectId c = k then None
                                        else cardVersions state cardId);
               nextActiveProjectId =
                 (if activeProjectId state = Some k
                  then (case remainingProjects of [] \<Rightarrow> None | p # _ \<Rightarrow> Some (p_id p))
                  else activeProjectId state)
           in Inr (state\<lparr>projects := remainingProjects,
                         activeProjectId := nextActiveProjectId,
                         cards := updatedCards,
                         cardVersions := updatedVersions\<rparr>))"
| "boardReducer e state (SET_ACTIVE_PROJECT k) = Inr (state\<lparr>activeProjectId := Some k\<rparr>)"
| "boardReducer e state (LOAD_STATE payload) = Inr (payload\<lparr>isLoading := False\<rparr>)"
| "boardReducer e state (SET_ERROR payload) = Inr (state\<lparr>error := payload\<rparr>)"
| "boardReducer e state (UNKNOWN_ACTION t) = Inr state"

text \<open>A run of the reducer over a sequence of dispatched actions, each with the
  environment of its own call; a throw ends the run.\<close>

fun runActions :: "BoardState \<Rightarrow> (Env \<times> BoardAction) list \<Rightarrow> error + BoardState" where
  "runActions state [] = Inr state"
| "runActions state ((e, a) # rest) =
     (case boardReducer e state a of
        Inl err \<Rightarrow> Inl err
      | Inr state' \<Rightarrow> runActions state' rest)"

section \<open>The state normalizer (context/BoardContext.tsx)\<close>

text \<open>
  \<^verbatim>\<open>normalizeState(raw: BoardState | LegacyBoardState): BoardState\<close> reads persisted
  data. A field is an \<open>option\<close> exactly where the code guards it with \<^verbatim>\<open>??\<close>
  (which treats \<^verbatim>\<open>null\<close> and an absent key alike).
\<close>

type_synonym RawCard = "string option CardG"
type_synonym RawCardVersion = "string option CardVersionG"
type_synonym RawProject = "string option ProjectG"

record RawBoardState =
  r_projects :: "RawProject list"
  r_activeProjectId :: "string option"
  r_cards :: "string \<rightharpoonup> RawCard"
  r_cardVersions :: "(string \<rightharpoonup> RawCardVersion list) option"
  r_isLoading :: "bool option"
  r_error :: "string option"

record LegacyProject =
  lp_id :: string
  lp_name :: "string option"
  lp_title :: "string option"
  lp_lanes :: "Lane list option"
  lp_createdAt :: "string option"
  lp_updatedAt :: "string option"

record LegacyBoardState =
  lg_project :: LegacyProject
  lg_cards :: "(string \<rightharpoonup> RawCard) option"
  lg_cardVersions :: "(string \<rightharpoonup> RawCardVersion list) option"
  lg_isLoading :: "bool option"
  lg_error :: "string option"

text \<open>The argument of \<^verbatim>\<open>normalizeState\<close>; \<^verbatim>\<open>'projects' in raw\<close> tells the two shapes apart.\<close>

datatype Persisted = Current RawBoardState | Legacy LegacyBoardState

text \<open>\<^verbatim>\<open>{ ...card, projectId: f(card.projectId) }\<close>, and the same inside a version's data.\<close>

definition mapCardProjectId :: "('p \<Rightarrow> 'q) \<Rightarrow> 'p CardG \<Rightarrow> 'q CardG" where
  "mapCardProjectId f c =
     \<lparr> c_id = c_id c, c_projectId = f (c_projectId c), c_title = c_title c,
       c_description = c_description c, c_type = c_type c, c_priority = c_priority c,
       c_dueDate = c_dueDate c, c_labels = c_labels c, c_assignee = c_assignee c,
       c_laneId = c_laneId c, c_order = c_order c, c_isDeleted = c_isDeleted c,
       c_createdAt = c_createdAt c, c_updatedAt = c_updatedAt c \<rparr>"

definition mapDataProjectId :: "('p \<Rightarrow> 'q) \<Rightarrow> 'p CardDataG \<Rightarrow> 'q CardDataG" where
  "mapDataProjectId f d =
     \<lparr> d_projectId = f (d_projectId d), d_title = d_title d,
       d_description = d_description d, d_type = d_type d, d_priority = d_priority d,
       d_dueDate = d_dueDate d, d_labels = d_labels d, d_assignee = d_assignee d,
       d_laneId = d_laneId d, d_order = d_order d, d_isDeleted = d_isDeleted d,
       d_createdAt = d_createdAt d, d_updatedAt = d_updatedAt d \<rparr>"

definition mapVersionProjectId :: "('p \<Rightarrow> 'q) \<Rightarrow> 'p CardVersionG \<Rightarrow> 'q CardVersionG" where
  "mapVersionProjectId f v =
     \<lparr> v_id = v_id v, v_cardId = v_cardId v, v_version = v_version v,
       v_data = mapDataProjectId f (v_data v), v_timestamp = v_timestamp v \<rparr>"

text \<open>\<^verbatim>\<open>{ ...project, title: f(project.title), thumbnailUrl: project.thumbnailUrl ?? null }\<close>.\<close>

definition mapProjectTitle :: "('s \<Rightarrow> 't) \<Rightarrow> 's ProjectG \<Rightarrow> 't ProjectG" where
  "mapProjectTitle f project =
     \<lparr> p_id = p_id project, p_title = f (p_title project),
       p_thumbnailUrl = p_thumbnailUrl project, p_lanes = p_lanes project,
       p_createdAt = p_createdAt project, p_updatedAt = p_updatedAt project \<rparr>"

text \<open>\<^verbatim>\<open>projects[0]?.id ?? null\<close>.\<close>

definition firstProjectId :: "'t ProjectG list \<Rightarrow> string option" where
  "firstProjectId ps = (case ps of [] \<Rightarrow> None | project # _ \<Rightarrow> Some (p_id project))"

text \<open>The two \<^verbatim>\<open>Object.fromEntries(Object.entries(...).map(...))\<close> of either branch;
  \<open>fallback\<close> is \<^verbatim>\<open>activeProjectId ?? ''\<close> in the first branch and
  \<^verbatim>\<open>normalizedProject.id\<close> in the second. \<^verbatim>\<open>Object.entries\<close> lists the entries of the
  object's own. In \<^verbatim>\<open>cards[cardId]?.projectId\<close> a member inherited from
  \<^verbatim>\<open>Object.prototype\<close> has no \<^verbatim>\<open>projectId\<close>, so the \<^verbatim>\<open>??\<close> falls through to the fallback
  as it does when there is no card.\<close>

definition normalizeCards :: "string \<Rightarrow> (string \<rightharpoonup> RawCard) \<Rightarrow> (string \<rightharpoonup> Card)" where
  "normalizeCards fallback rawCards =
     (\<lambda>k. map_option (mapCardProjectId (\<lambda>projectId. orElse projectId fallback)) (rawCards k))"

definition normalizeVersions ::
  "string \<Rightarrow> (string \<rightharpoonup> Card) \<Rightarrow> (string \<rightharpoonup> RawCardVersion list) \<Rightarrow> (string \<rightharpoonup> CardVersion list)" where
  "normalizeVersions fallback cs rawVersions =
     (\<lambda>cardId.
        map_option
          (\<lambda>versions.
             let projectId = (case cs cardId of Some c \<Rightarrow> c_projectId c | None \<Rightarrow> fallback)
             in map (mapVersionProjectId (\<lambda>p. orElse p projectId)) versions)
          (rawVersions cardId))"

fun normalizeState :: "Env \<Rightarrow> Persisted \<Rightarrow> BoardState" where
  "normalizeState e (Current raw) =
     (let ps = map (mapProjectTitle (\<lambda>t. orElse t ''Untitled project'')) (r_projects raw);
          candidateProjectId =
            (case r_activeProjectId raw of Some a \<Rightarrow> Some a | None \<Rightarrow> firstProjectId ps);
          activeId =
            (if list_ex (\<lambda>project. Some (p_id project) = candidateProjectId) ps
             then candidateProjectId else firstProjectId ps);
          cs = normalizeCards (orElse activeId []) (r_cards raw);
          vs = normalizeVersions (orElse activeId []) cs (orElse (r_cardVersions raw) Map.empty)
      in \<lparr> projects = ps, activeProjectId = activeId, cards = cs, cardVersions = vs,
           isLoading = orElse (r_isLoading raw) False, error = r_error raw \<rparr>)"
| "normalizeState e (Legacy raw) =
     (let project = lg_project raw;
          normalizedProject =
            \<lparr> p_id = lp_id project,
              p_title = orElse (lp_title project) (orElse (lp_name project) ''Untitled project''),
              p_thumbnailUrl = None,
              p_lanes = orElse (lp_lanes project) (createDefaultLanes e 0),
              p_createdAt = orElse (lp_createdAt project) (clock e 0),
              p_updatedAt = orElse (lp_updatedAt project)
                              (clock e (case lp_createdAt project of None \<Rightarrow> 1 | Some _ \<Rightarrow> 0)) \<rparr>;
          cs = normalizeCards (p_id normalizedProject) (orElse (lg_cards raw) Map.empty);
          vs = normalizeVersions (p_id normalizedProject) cs
                 (orElse (lg_cardVersions raw) Map.empty)
      in \<lparr> projects = [normalizedProject], activeProjectId = Some (p_id normalizedProject),
           cards = cs, cardVersions = vs,
           isLoading = orElse (lg_isLoading raw) False, error = lg_error raw \<rparr>)"

text \<open>
  A \<^verbatim>\<open>BoardState\<close> passed where \<^verbatim>\<open>BoardState | LegacyBoardState\<close> is expected: the same
  object, every guarded field present.
\<close>

definition asPersisted :: "BoardState \<Rightarrow> Persisted" where
  "asPersisted state =
     Current \<lparr> r_projects = map (mapProjectTitle Some) (projects state),
               r_activeProjectId = activeProjectId state,
               r_cards = (\<lambda>k. map_option (mapCardProjectId Some) (cards state k)),
               r_cardVersions =
                 Some (\<lambda>k. map_option (map (mapVersionProjectId Some)) (cardVersions state k)),
               r_isLoading = Some (isLoading state),
               r_error = error state \<rparr>"

section \<open>Actions that find what they look up\<close>


section \<open>The recorded history of a card\<close>

text \<open>The versions recorded for card \<open>k\<close>: the entry of \<^verbatim>\<open>cardVersions\<close> under \<open>k\<close>, and no
  version when there is no entry. Its length is the \<^verbatim>\<open>cardVersions[id].length\<close> of the
  claims.\<close>

definition recordedVersions :: "BoardState \<Rightarrow> string \<Rightarrow> CardVersion list" where
  "recordedVersions state k = (case cardVersions state k of None \<Rightarrow> [] | Some vs \<Rightarrow> vs)"

section \<open>Invariant I1 and the lanes that hold a card\<close>

text \<open>The (project id, lane id) of every lane whose \<^verbatim>\<open>cardIds\<close> lists card \<open>k\<close>, over all
  projects, in board order.\<close>

definition lanesHolding :: "BoardState \<Rightarrow> string \<Rightarrow> (string \<times> string) list" where
  "lanesHolding state k =
     concat (map (\<lambda>project.
                    map (\<lambda>lane. (p_id project, l_id lane))
                        (filter (\<lambda>lane. k \<in> set (l_cardIds lane)) (p_lanes project)))
                 (projects state))"

text \<open>Invariant I1 for the card stored under key \<open>k\<close>: if it is there and not deleted,
  exactly one lane lists it, the lane named by its \<^verbatim>\<open>laneId\<close> in the project named by its
  \<^verbatim>\<open>projectId\<close>.\<close>

definition I1_at :: "BoardState \<Rightarrow> string \<Rightarrow> bool" where
  "I1_at s k =
     (case cards s k of
        None \<Rightarrow> True
      | Some c \<Rightarrow> c_isDeleted c \<or> lanesHolding s k = [(c_projectId c, c_laneId c)])"

text \<open>What I1 reads of card \<open>k\<close> at the end of a run: whether the card is deleted, the
  lanes that list it, and whether I1 holds for it.\<close>

definition placement ::
  "string \<Rightarrow> error + BoardState \<Rightarrow> error + (bool option \<times> (string \<times> string) list \<times> bool)" where
  "placement k r =
     map_sum id (\<lambda>s. (map_option c_isDeleted (cards s k), lanesHolding s k, I1_at s k)) r"


section \<open>Example boards\<close>

definition mkEnv :: "string \<Rightarrow> string \<Rightarrow> Env" where
  "mkEnv t i = \<lparr> now = t, clock = (\<lambda>_. t), ids = (\<lambda>k. i @ replicate k CHR ''x'') \<rparr>"

definition laneTodo :: Lane where
  "laneTodo = \<lparr> l_id = ''l1'', l_title = ''Todo'', l_order = 0, l_cardIds = [] \<rparr>"

definition laneDoing :: Lane where
  "laneDoing = \<lparr> l_id = ''l2'', l_title = ''Doing'', l_order = 1, l_cardIds = [] \<rparr>"

definition projectOf :: "string \<Rightarrow> Lane list \<Rightarrow> Project" where
  "projectOf k lanes =
     \<lparr> p_id = k, p_title = ''Board'', p_thumbnailUrl = None, p_lanes = lanes,
       p_createdAt = ''t0'', p_updatedAt = ''t0'' \<rparr>"

definition boardOf :: "Project list \<Rightarrow> string option \<Rightarrow> BoardState" where
  "boardOf ps a =
     \<lparr> projects = ps, activeProjectId = a, cards = Map.empty, cardVersions = Map.empty,
       isLoading = False, error = None \<rparr>"

definition writeSpec :: CardInput where
  "writeSpec =
     \<lparr> i_title = ''Write spec'', i_description = [], i_type = Task, i_priority = Medium,
       i_dueDate = None, i_labels = [], i_assignee = None, i_laneId = ''l1'', i_order = 0 \<rparr>"

definition cardIn :: "string \<Rightarrow> string \<Rightarrow> string \<Rightarrow> Card" where
  "cardIn k projectId laneId =
     \<lparr> c_id = k, c_projectId = projectId, c_title = ''Write spec'', c_description = [],
       c_type = Task, c_priority = Medium, c_dueDate = None, c_labels = [],
       c_assignee = None, c_laneId = laneId, c_order = 0, c_isDeleted = False,
       c_createdAt = ''t0'', c_updatedAt = ''t0'' \<rparr>"

definition noUpdates :: CardUpdates where
  "noUpdates =
     \<lparr> u_id = None, u_projectId = None, u_title = None, u_description = None, u_type = None,
       u_priority = None, u_dueDate = None, u_labels = None, u_assignee = None,
       u_laneId = None, u_order = None, u_isDeleted = None, u_createdAt = None,
       u_updatedAt = None \<rparr>"

text \<open>One project with the single lane \<open>l1\<close>, no cards.\<close>

definition oneLaneBoard :: BoardState where
  "oneLaneBoard = boardOf [projectOf ''p1'' [laneTodo]] (Some ''p1'')"

text \<open>One project with lanes \<open>l1\<close> (holding card \<open>c1\<close>) and \<open>l2\<close>.\<close>

definition twoLaneBoard :: BoardState where
  "twoLaneBoard =
     (boardOf [projectOf ''p1'' [laneTodo\<lparr>l_cardIds := [''c1'']\<rparr>, laneDoing]] (Some ''p1''))
       \<lparr>cards := [''c1'' \<mapsto> cardIn ''c1'' ''p1'' ''l1'']\<rparr>"

definition makeUrgent :: CardUpdates where
  "makeUrgent = noUpdates\<lparr>u_priority := Some Urgent\<rparr>"

text \<open>The same board after one earlier mutation of \<open>c1\<close>: one recorded version.\<close>

definition historyBoard :: BoardState where
  "historyBoard =
     twoLaneBoard\<lparr>cardVersions := [''c1'' \<mapsto> [snapshot (mkEnv ''t0'' ''v1'')
                                                (cardIn ''c1'' ''p1'' ''l1'') 1]]\<rparr>"

text \<open>The same board with no active project.\<close>

definition inactiveBoard :: BoardState where
  "inactiveBoard = historyBoard\<lparr>activeProjectId := None\<rparr>"






text \<open>The board \<open>twoLaneBoard\<close> with its card stored under the key \<open>constructor\<close>.\<close>

definition constructorBoard :: BoardState where
  "constructorBoard =
     twoLaneBoard\<lparr>cards := [''constructor'' \<mapsto> cardIn ''constructor'' ''p1'' ''l1'']\<rparr>"

text \<open>A board whose only project has the empty string as its id, and is named by
  \<^verbatim>\<open>activeProjectId\<close>.\<close>

definition blankIdBoard :: BoardState where
  "blankIdBoard =
     (boardOf [projectOf [] [laneTodo\<lparr>l_cardIds := [''c1'']\<rparr>]] (Some []))
       \<lparr>cards := [''c1'' \<mapsto> cardIn ''c1'' [] ''l1'']\<rparr>"

text \<open>The board \<open>historyBoard\<close> after its card was deleted.\<close>

definition trashBoard :: BoardState where
  "trashBoard =
     historyBoard\<lparr>cards := [''c1'' \<mapsto> (cardIn ''c1'' ''p1'' ''l1'')\<lparr>c_isDeleted := True\<rparr>],
                  projects := [projectOf ''p1'' [laneTodo, laneDoing]]\<rparr>"

text \<open>Persisted data for the normalizer.\<close>

definition rawCard :: "string \<Rightarrow> string option \<Rightarrow> string \<Rightarrow> RawCard" where
  "rawCard k p laneId = mapCardProjectId (\<lambda>_. p) (cardIn k [] laneId)"

definition rawVersion :: "string \<Rightarrow> string option \<Rightarrow> RawCardVersion" where
  "rawVersion k p =
     mapVersionProjectId (\<lambda>_. p) (snapshot (mkEnv ''t0'' ''v1'') (cardIn k [] ''l1'') 1)"

text \<open>Two projects, the first one active; card \<open>c1\<close> belongs to \<open>p2\<close>, card \<open>c2\<close> has no
  \<^verbatim>\<open>projectId\<close>; no version snapshot has one; \<open>c7\<close> has a history but no card.\<close>

definition strayRaw :: RawBoardState where
  "strayRaw =
     \<lparr> r_projects = [mapProjectTitle Some (projectOf ''p1'' [laneTodo]),
                      mapProjectTitle (\<lambda>_. None) (projectOf ''p2'' [laneDoing])],
       r_activeProjectId = Some ''p1'',
       r_cards = [''c1'' \<mapsto> rawCard ''c1'' (Some ''p2'') ''l2'', ''c2'' \<mapsto> rawCard ''c2'' None ''l1''],
       r_cardVersions = Some [''c1'' \<mapsto> [rawVersion ''c1'' None], ''c2'' \<mapsto> [rawVersion ''c2'' None],
                              ''c7'' \<mapsto> [rawVersion ''c7'' None]],
       r_isLoading = None, r_error = None \<rparr>"

text \<open>The same cards with no project at all.\<close>

definition emptyRaw :: RawBoardState where
  "emptyRaw = strayRaw\<lparr>r_projects := [], r_activeProjectId := None\<rparr>"

text \<open>A board of the single-project schema: a \<^verbatim>\<open>name\<close> and no \<^verbatim>\<open>title\<close>, no lanes, no
  timestamps, and a card and a version without \<^verbatim>\<open>projectId\<close>.\<close>

definition legacyRaw :: LegacyBoardState where
  "legacyRaw =
     \<lparr> lg_project = \<lparr> lp_id = ''p1'', lp_name = Some ''Old board'', lp_title = None,
                        lp_lanes = None, lp_createdAt = None, lp_updatedAt = None \<rparr>,
       lg_cards = Some [''c1'' \<mapsto> rawCard ''c1'' None ''l1''],
       lg_cardVersions = Some [''c1'' \<mapsto> [rawVersion ''c1'' None]],
       lg_isLoading = None, lg_error = None \<rparr>"

section \<open>Facts about the active project\<close>

lemma getActiveProject_NoneI:
  "activeProjectId s = None \<or> (\<exists>a. activeProjectId s = Some a \<and> a \<notin> p_id ` set (projects s))
   \<Longrightarrow> getActiveProject s = None"
  by (auto simp: getActiveProject_def find_None_iff split: option.splits)

lemma mapActiveProject_None: "getActiveProject s = None \<Longrightarrow> mapActiveProject s f = None"
  by (simp add: mapActiveProject_def)

lemma mapActiveProject_Some:
  "getActiveProject s = Some p \<Longrightarrow>
   mapActiveProject s f = Some (map (\<lambda>q. if p_id q = p_id p then f p else q) (projects s))"
  by (simp add: mapActiveProject_def)


lemma find_map_active:
  "find (\<lambda>q. p_id q = a) ps = Some p \<Longrightarrow> p_id p' = p_id p \<Longrightarrow>
   find (\<lambda>q. p_id q = a) (map (\<lambda>q. if p_id q = p_id p then p' else q) ps) = Some p'"
  by (induction ps) (auto split: if_splits)

lemma getActiveProject_mapped:
  assumes "getActiveProject s = Some p" and "p_id p' = p_id p"
    and "activeProjectId s' = activeProjectId s"
    and "projects s' = map (\<lambda>q. if p_id q = p_id p then p' else q) (projects s)"
  shows "getActiveProject s' = Some p'"
  using assms
  by (auto simp: getActiveProject_def find_map_active split: option.splits if_splits)

lemma oneLaneBoard_active:
  "getActiveProject oneLaneBoard = Some (projectOf ''p1'' [laneTodo])"
  by (simp add: oneLaneBoard_def boardOf_def getActiveProject_def projectOf_def)

section \<open>Facts about property lookup\<close>

lemma jsGet_cards: "cards s k = Some c \<Longrightarrow> jsGet (cards s) k = Own c"
  by (simp add: jsGet_def)

lemma jsGet_versions: "cardVersions s k = Some vs \<Longrightarrow> jsGet (cardVersions s) k = Own vs"
  by (simp add: jsGet_def)

lemma jsGet_Absent_iff: "jsGet obj k = Absent \<longleftrightarrow> obj k = None \<and> objectPrototype k = None"
  by (simp add: jsGet_def split: option.splits)

lemma jsGet_Own_iff: "jsGet obj k = Own v \<longleftrightarrow> obj k = Some v"
  by (simp add: jsGet_def split: option.splits)

lemma jsGet_Inherited_iff:
  "jsGet obj k = Inherited f \<longleftrightarrow> obj k = None \<and> objectPrototype k = Some f"
  by (simp add: jsGet_def split: option.splits)

lemma plainKey_iff: "plainKey obj k \<longleftrightarrow> obj k \<noteq> None \<or> objectPrototype k = None"
  by (auto simp: plainKey_def inherited_def jsGet_def split: option.splits)

lemma plainKey_Some: "obj k = Some v \<Longrightarrow> plainKey obj k"
  by (simp add: plainKey_iff)

lemma existingVersionsOf_plain:
  "plainKey (cardVersions s) k \<Longrightarrow> existingVersionsOf s k = Array (recordedVersions s k)"
  by (auto simp: plainKey_def inherited_def existingVersionsOf_def recordedVersions_def jsGet_def
           split: option.splits)

lemma createCardVersion_own:
  "createCardVersion e (Own c) (Array vs) = Inr (Some (snapshot e c (nextNumber vs)))"
  by (simp add: createCardVersion_def nextVersion_def)

lemma appendVersion_own: "appendVersion (Array vs) (Some v) = Inr (vs @ [v])"
  by (simp add: appendVersion_def)

lemma recordedVersions_upd:
  "cardVersions s' = (cardVersions s)(k \<mapsto> vs) \<Longrightarrow> recordedVersions s' k = vs"
  by (simp add: recordedVersions_def)

text \<open>The three actions that record a version, on a card of the object's own whose
  history is an array.\<close>

lemma update_card_own:
  assumes c: "cards s k = Some c" and v: "plainKey (cardVersions s) k"
  shows "boardReducer e s (UPDATE_CARD k u) =
           (case getActiveProject s of
              None \<Rightarrow> Inr s
            | Some p \<Rightarrow>
                Inr (s\<lparr>cards := (cards s)(k \<mapsto> (mergeCard c u)\<lparr>c_updatedAt := now e\<rparr>),
                       cardVersions := (cardVersions s)
                         (k \<mapsto> recordedVersions s k
                                @ [snapshot e c (nextNumber (recordedVersions s k))]),
                       projects := map (\<lambda>q. if p_id q = p_id p then p\<lparr>p_updatedAt := now e\<rparr> else q)
                                       (projects s)\<rparr>))"
  by (cases "getActiveProject s")
     (simp_all add: jsGet_cards[OF c] existingVersionsOf_plain[OF v] createCardVersion_own
        appendVersion_own mapActiveProject_None mapActiveProject_Some Let_def)

lemma delete_card_own:
  assumes c: "cards s k = Some c" and v: "plainKey (cardVersions s) k"
    and a: "getActiveProject s = Some p"
  shows "\<exists>s'. boardReducer e s (DELETE_CARD k) = Inr s' \<and>
              cardVersions s' = (cardVersions s)
                (k \<mapsto> recordedVersions s k @ [snapshot e c (nextNumber (recordedVersions s k))])"
  by (simp add: jsGet_cards[OF c] existingVersionsOf_plain[OF v] createCardVersion_own
        appendVersion_own a Let_def)

lemma move_card_own:
  assumes c: "cards s k = Some c" and v: "plainKey (cardVersions s) k"
    and a: "getActiveProject s = Some p"
  shows "\<exists>s'. boardReducer e s (MOVE_CARD k toLaneId toIndex) = Inr s' \<and>
              cardVersions s' = (cardVersions s)
                (k \<mapsto> recordedVersions s k @ [snapshot e c (nextNumber (recordedVersions s k))])"
  by (simp add: jsGet_cards[OF c] existingVersionsOf_plain[OF v] createCardVersion_own
        appendVersion_own a Let_def)

lemma undo_card_active:
  assumes a: "getActiveProject s = Some p" and v: "cardVersions s k = Some vs" and n: "vs \<noteq> []"
  shows "\<exists>s'. boardReducer e s (UNDO_CARD k) = Inr s' \<and>
              cards s' k = Some ((cardOfData k (v_data (last vs)))\<lparr>c_updatedAt := now e\<rparr>) \<and>
              cardVersions s' k = Some (butlast vs)"
  using a n by (simp add: jsGet_versions[OF v] Let_def)

lemma undo_card_inactive: "getActiveProject s = None \<Longrightarrow> boardReducer e s (UNDO_CARD k) = Inr s"
  by (simp add: Let_def split: property.splits)

lemma undo_card_empty: "recordedVersions s k = [] \<Longrightarrow> boardReducer e s (UNDO_CARD k) = Inr s"
  by (auto simp: recordedVersions_def jsGet_def split: option.splits property.splits)

section \<open>Card mutations without an active project\<close>

lemma inheritsArity_iff:
  "inheritsArity obj k \<longleftrightarrow>
     obj k = None \<and>
     k \<in> {''constructor'', ''hasOwnProperty'', ''isPrototypeOf'', ''propertyIsEnumerable'',
          ''__defineGetter__'', ''__defineSetter__'', ''__lookupGetter__'', ''__lookupSetter__''}"
  by (cases "obj k") (auto simp: inheritsArity_def jsGet_def objectPrototype_def)

lemma nextVersion_total:
  "\<not> inheritsArity (cardVersions s) k \<Longrightarrow> \<exists>n. nextVersion (existingVersionsOf s k) = Inr n"
  by (auto simp: inheritsArity_def existingVersionsOf_def nextVersion_def
           split: property.splits option.splits)

lemma createCardVersion_total:
  "\<not> inheritsArity (cardVersions s) k \<Longrightarrow>
   \<exists>v. createCardVersion e c (existingVersionsOf s k) = Inr v"
  using nextVersion_total[of s k] by (auto simp: createCardVersion_def)

text \<open>
  Claim C9, amended. In a state whose \<^verbatim>\<open>activeProjectId\<close> is \<^verbatim>\<open>null\<close> or names no existing
  project, \<^verbatim>\<open>UNDO_CARD\<close> returns the input state for every card id, whatever its
  history. \<^verbatim>\<open>UPDATE_CARD\<close>, \<^verbatim>\<open>DELETE_CARD\<close> and \<^verbatim>\<open>MOVE_CARD\<close> return the input state for every
  card id, whether or not the card exists, unless \<^verbatim>\<open>cardVersions[id]\<close> is an inherited
  function with a positive \<^verbatim>\<open>length\<close> (the id is \<^verbatim>\<open>constructor\<close>, \<^verbatim>\<open>hasOwnProperty\<close>,
  \<^verbatim>\<open>isPrototypeOf\<close>, \<^verbatim>\<open>propertyIsEnumerable\<close>, \<^verbatim>\<open>__defineGetter__\<close>, \<^verbatim>\<open>__defineSetter__\<close>,
  \<^verbatim>\<open>__lookupGetter__\<close> or \<^verbatim>\<open>__lookupSetter__\<close>, and \<^verbatim>\<open>cardVersions\<close> has no entry under it).
  The result is the state itself, so no version is appended or popped.
\<close>

theorem card_mutations_need_active_project:
  assumes "activeProjectId s = None \<or>
           (\<exists>a. activeProjectId s = Some a \<and> a \<notin> p_id ` set (projects s))"
  shows "(\<not> inheritsArity (cardVersions s) k \<longrightarrow>
            boardReducer e s (UPDATE_CARD k u) = Inr s \<and>
            boardReducer e s (DELETE_CARD k) = Inr s \<and>
            boardReducer e s (MOVE_CARD k toLaneId toIndex) = Inr s) \<and>
         boardReducer e s (UNDO_CARD k) = Inr s"
proof -
  have n: "getActiveProject s = None" using assms by (rule getActiveProject_NoneI)
  have three: "boardReducer e s (UPDATE_CARD k u) = Inr s \<and>
               boardReducer e s (DELETE_CARD k) = Inr s \<and>
               boardReducer e s (MOVE_CARD k toLaneId toIndex) = Inr s"
    if h: "\<not> inheritsArity (cardVersions s) k"
  proof -
    obtain v where v: "createCardVersion e (jsGet (cards s) k) (existingVersionsOf s k) = Inr v"
      using createCardVersion_total[OF h] by blast
    have "boardReducer e s (UPDATE_CARD k u) = Inr s"
      using v by (cases "jsGet (cards s) k") (simp_all add: mapActiveProject_None[OF n] Let_def)
    moreover have "boardReducer e s (DELETE_CARD k) = Inr s"
      using v by (cases "jsGet (cards s) k") (simp_all add: n Let_def)
    moreover have "boardReducer e s (MOVE_CARD k toLaneId toIndex) = Inr s"
      using v by (cases "jsGet (cards s) k") (simp_all add: n Let_def)
    ultimately show ?thesis by blast
  qed
  have "boardReducer e s (UNDO_CARD k) = Inr s"
    by (rule undo_card_inactive[OF n])
  with three show ?thesis by blast
qed

lemma inactiveBoard_inactive:
  "activeProjectId inactiveBoard = None \<or>
   (\<exists>a. activeProjectId inactiveBoard = Some a \<and> a \<notin> p_id ` set (projects inactiveBoard))"
  by (simp add: inactiveBoard_def)

text \<open>
  On \<open>inactiveBoard\<close> the card \<open>c1\<close> exists and has a recorded version; all four
  actions leave the board as it is, and so do a deletion under the inherited name
  \<open>toString\<close>, whose \<^verbatim>\<open>length\<close> is 0, and an undo under \<open>constructor\<close>.
\<close>

theorem card_mutations_need_active_project_witness:
  "cards inactiveBoard ''c1'' \<noteq> None \<and> recordedVersions inactiveBoard ''c1'' \<noteq> [] \<and>
   boardReducer (mkEnv ''t1'' ''v2'') inactiveBoard (UPDATE_CARD ''c1'' noUpdates) = Inr inactiveBoard \<and>
   boardReducer (mkEnv ''t1'' ''v2'') inactiveBoard (DELETE_CARD ''c1'') = Inr inactiveBoard \<and>
   boardReducer (mkEnv ''t1'' ''v2'') inactiveBoard (MOVE_CARD ''c1'' ''l2'' 0) = Inr inactiveBoard \<and>
   boardReducer (mkEnv ''t1'' ''v2'') inactiveBoard (UNDO_CARD ''c1'') = Inr inactiveBoard \<and>
   boardReducer (mkEnv ''t1'' ''v2'') inactiveBoard (DELETE_CARD ''toString'') = Inr inactiveBoard \<and>
   boardReducer (mkEnv ''t1'' ''v2'') inactiveBoard (UNDO_CARD ''constructor'') = Inr inactiveBoard"
proof -
  have c: "cards inactiveBoard ''c1'' \<noteq> None"
    by (simp add: inactiveBoard_def historyBoard_def twoLaneBoard_def)
  have v: "recordedVersions inactiveBoard ''c1'' \<noteq> []"
    by (simp add: inactiveBoard_def historyBoard_def recordedVersions_def)
  have p1: "\<not> inheritsArity (cardVersions inactiveBoard) ''c1''"
    by (simp add: inheritsArity_iff)
  have p2: "\<not> inheritsArity (cardVersions inactiveBoard) ''toString''"
    by (simp add: inheritsArity_iff)
  show ?thesis
    using card_mutations_need_active_project [OF inactiveBoard_inactive, of "''c1''" "mkEnv ''t1'' ''v2''" noUpdates "''l2''" 0]
          card_mutations_need_active_project [OF inactiveBoard_inactive, of "''toString''" "mkEnv ''t1'' ''v2''" noUpdates "''l2''" 0]
          card_mutations_need_active_project [OF inactiveBoard_inactive, of "''constructor''" "mkEnv ''t1'' ''v2''" noUpdates "''l2''" 0]
          c v p1 p2
    by (simp del: boardReducer.simps)
qed

text \<open>
  Claim C9 as stated, for every card id: on \<open>inactiveBoard\<close>, which has no active
  project, the id \<open>constructor\<close> finds \<^verbatim>\<open>Object\<close> both in \<^verbatim>\<open>cards\<close> and in \<^verbatim>\<open>cardVersions\<close>;
  \<^verbatim>\<open>createCardVersion\<close> calls its missing \<^verbatim>\<open>map\<close> and throws before the test for the
  active project is reached.
\<close>

theorem card_mutations_throw_before_guard:
  "activeProjectId inactiveBoard = None \<and>
   boardReducer (mkEnv ''t1'' ''v2'') inactiveBoard (UPDATE_CARD ''constructor'' noUpdates)
     = Inl TypeError \<and>
   boardReducer (mkEnv ''t1'' ''v2'') inactiveBoard (DELETE_CARD ''constructor'') = Inl TypeError \<and>
   boardReducer (mkEnv ''t1'' ''v2'') inactiveBoard (MOVE_CARD ''constructor'' ''l2'' 0)
     = Inl TypeError"
  by (simp add: inactiveBoard_def historyBoard_def twoLaneBoard_def boardOf_def jsGet_def
        objectPrototype_def existingVersionsOf_def createCardVersion_def nextVersion_def Let_def)

section \<open>Guarded deletion\<close>

text \<open>
  Claim C10. \<^verbatim>\<open>DELETE_LANE\<close> tests the number of lanes before it looks the lane up: when
  the active project has exactly one lane, \<^verbatim>\<open>DELETE_LANE\<close> with any id at all returns
  the state with \<^verbatim>\<open>error\<close> set to \<^verbatim>\<open>'Cannot delete the last lane'\<close>.
\<close>

theorem delete_lane_counts_before_lookup:
  assumes "getActiveProject s = Some p" and "length (p_lanes p) = 1"
  shows "boardReducer e s (DELETE_LANE k) =
           Inr (s\<lparr>error := Some ''Cannot delete the last lane''\<rparr>)"
  using assms by simp

text \<open>The id \<open>l7\<close> names no lane of \<open>oneLaneBoard\<close>, and the error is set all the same.\<close>

theorem delete_lane_counts_before_lookup_witness:
  "find (\<lambda>l. l_id l = ''l7'') (p_lanes (projectOf ''p1'' [laneTodo])) = None \<and>
   boardReducer (mkEnv ''t1'' ''x'') oneLaneBoard (DELETE_LANE ''l7'')
     = Inr (oneLaneBoard\<lparr>error := Some ''Cannot delete the last lane''\<rparr>)"
  using delete_lane_counts_before_lookup
          [OF oneLaneBoard_active, of "mkEnv ''t1'' ''x''" "''l7''"]
  by (simp add: projectOf_def laneTodo_def)

text \<open>
  Claim C4. Deleting the only lane of the active project, or the only project of the
  board, returns the state with nothing changed but \<^verbatim>\<open>error\<close>, which holds a fixed
  message: projects, lanes, cards, version histories and \<^verbatim>\<open>activeProjectId\<close> are those
  of the input.
\<close>

theorem guarded_deletion:
  "(getActiveProject s = Some p \<and> p_lanes p = [l] \<longrightarrow>
      boardReducer e s (DELETE_LANE (l_id l))
        = Inr (s\<lparr>error := Some ''Cannot delete the last lane''\<rparr>))
   \<and> (projects s = [q] \<longrightarrow>
      boardReducer e s (DELETE_PROJECT (p_id q))
        = Inr (s\<lparr>error := Some ''Cannot delete the last project''\<rparr>))"
  by (simp add: Let_def)

theorem guarded_deletion_witness:
  "boardReducer (mkEnv ''t1'' ''x'') oneLaneBoard (DELETE_LANE ''l1'')
     = Inr (oneLaneBoard\<lparr>error := Some ''Cannot delete the last lane''\<rparr>) \<and>
   boardReducer (mkEnv ''t1'' ''x'') oneLaneBoard (DELETE_PROJECT ''p1'')
     = Inr (oneLaneBoard\<lparr>error := Some ''Cannot delete the last project''\<rparr>)"
  using guarded_deletion [of oneLaneBoard "projectOf ''p1'' [laneTodo]" laneTodo
                             "mkEnv ''t1'' ''x''" "projectOf ''p1'' [laneTodo]"]
        oneLaneBoard_active
  by (simp add: projectOf_def laneTodo_def oneLaneBoard_def boardOf_def)

section \<open>Version histories and undo\<close>

lemma cardOfData_cardData: "cardOfData k (cardData c) = c\<lparr>c_id := k\<rparr>"
  by (simp add: cardOfData_def cardData_def)

text \<open>
  Claim C3, amended. In a state that holds card \<open>k\<close> and whose \<^verbatim>\<open>cardVersions[k]\<close> is an array
  of its own or \<^verbatim>\<open>undefined\<close> (as it is unless \<open>k\<close> is the name of a member of
  \<^verbatim>\<open>Object.prototype\<close>), \<^verbatim>\<open>UPDATE_CARD(k, patch)\<close> followed by \<^verbatim>\<open>UNDO_CARD(k)\<close> yields a card
  whose title, description, type, priority, dueDate, labels, assignee, laneId, order
  and isDeleted are those before the update. When the state has an active project
  (\<^verbatim>\<open>getActiveProject\<close> is not \<^verbatim>\<open>null\<close>), the \<^verbatim>\<open>updatedAt\<close> of that card is the time of the
  undo; when it has none, both actions return the input state and the card is the one
  before the update.
\<close>

theorem update_then_undo_restores:
  assumes c: "cards s k = Some c" and v: "plainKey (cardVersions s) k"
  shows "\<exists>s1 s2 c2.
           boardReducer e1 s (UPDATE_CARD k u) = Inr s1 \<and>
           boardReducer e2 s1 (UNDO_CARD k) = Inr s2 \<and>
           cards s2 k = Some c2 \<and>
           c_title c2 = c_title c \<and> c_description c2 = c_description c \<and>
           c_type c2 = c_type c \<and> c_priority c2 = c_priority c \<and>
           c_dueDate c2 = c_dueDate c \<and> c_labels c2 = c_labels c \<and>
           c_assignee c2 = c_assignee c \<and> c_laneId c2 = c_laneId c \<and>
           c_order c2 = c_order c \<and> c_isDeleted c2 = c_isDeleted c \<and>
           (getActiveProject s \<noteq> None \<longrightarrow> c_updatedAt c2 = now e2) \<and>
           (getActiveProject s = None \<longrightarrow> c2 = c)"
proof (cases "getActiveProject s")
  case None
  have step1: "boardReducer e1 s (UPDATE_CARD k u) = Inr s"
    by (simp del: boardReducer.simps add: update_card_own[OF c v] None)
  have step2: "boardReducer e2 s (UNDO_CARD k) = Inr s"
    by (rule undo_card_inactive[OF None])
  show ?thesis
    using step1 step2 c None by auto
next
  case (Some p)
  define w where "w = snapshot e1 c (nextNumber (recordedVersions s k))"
  define s1 where
    "s1 = s\<lparr>cards := (cards s)(k \<mapsto> (mergeCard c u)\<lparr>c_updatedAt := now e1\<rparr>),
            cardVersions := (cardVersions s)(k \<mapsto> recordedVersions s k @ [w]),
            projects := map (\<lambda>q. if p_id q = p_id p then p\<lparr>p_updatedAt := now e1\<rparr> else q)
                            (projects s)\<rparr>"
  have step1: "boardReducer e1 s (UPDATE_CARD k u) = Inr s1"
    by (simp del: boardReducer.simps add: update_card_own[OF c v] Some s1_def w_def)
  have a1: "getActiveProject s1 = Some (p\<lparr>p_updatedAt := now e1\<rparr>)"
    by (rule getActiveProject_mapped[OF Some]) (simp_all add: s1_def)
  have v1: "cardVersions s1 k = Some (recordedVersions s k @ [w])"
    by (simp add: s1_def)
  from undo_card_active[OF a1 v1, of e2]
  obtain s2 where step2: "boardReducer e2 s1 (UNDO_CARD k) = Inr s2"
    and c2: "cards s2 k = Some ((cardOfData k (v_data w))\<lparr>c_updatedAt := now e2\<rparr>)"
    by auto
  have d: "v_data w = cardData c"
    by (simp add: w_def snapshot_def)
  have c2': "cards s2 k = Some (c\<lparr>c_id := k, c_updatedAt := now e2\<rparr>)"
    using c2 by (simp add: d cardOfData_cardData)
  show ?thesis
    using step1 step2 c2' Some by simp
qed

text \<open>
  Claim C2, amended. Provided \<^verbatim>\<open>getActiveProject\<close> is not \<^verbatim>\<open>null\<close> (\<^verbatim>\<open>activeProjectId\<close> is a
  non-empty string that names an existing project), the card \<open>k\<close> is in \<^verbatim>\<open>cards\<close> and
  \<^verbatim>\<open>cardVersions[k]\<close> is an array of its own or \<^verbatim>\<open>undefined\<close>: \<^verbatim>\<open>UPDATE_CARD\<close>,
  \<^verbatim>\<open>DELETE_CARD\<close> and \<^verbatim>\<open>MOVE_CARD\<close> each lengthen the card's version history by exactly
  one, and \<^verbatim>\<open>UNDO_CARD\<close> shortens a non-empty history by exactly one. In every state
  \<^verbatim>\<open>UNDO_CARD\<close> on an empty or absent history returns the input state, and \<^verbatim>\<open>ADD_CARD\<close>
  and \<^verbatim>\<open>RESTORE_CARD\<close> leave every version history as it was.
\<close>

theorem version_count_with_active_project:
  "(getActiveProject s = Some p \<and> cards s k = Some c \<and> plainKey (cardVersions s) k \<longrightarrow>
      (\<exists>s'. boardReducer e s (UPDATE_CARD k u) = Inr s' \<and>
            length (recordedVersions s' k) = length (recordedVersions s k) + 1) \<and>
      (\<exists>s'. boardReducer e s (DELETE_CARD k) = Inr s' \<and>
            length (recordedVersions s' k) = length (recordedVersions s k) + 1) \<and>
      (\<exists>s'. boardReducer e s (MOVE_CARD k toLaneId toIndex) = Inr s' \<and>
            length (recordedVersions s' k) = length (recordedVersions s k) + 1) \<and>
      (recordedVersions s k \<noteq> [] \<longrightarrow>
         (\<exists>s'. boardReducer e s (UNDO_CARD k) = Inr s' \<and>
               length (recordedVersions s' k) + 1 = length (recordedVersions s k))))
   \<and> (recordedVersions s k = [] \<longrightarrow> boardReducer e s (UNDO_CARD k) = Inr s)
   \<and> (\<exists>s'. boardReducer e s (ADD_CARD payload) = Inr s' \<and> cardVersions s' = cardVersions s)
   \<and> (\<exists>s'. boardReducer e s (RESTORE_CARD k) = Inr s' \<and> cardVersions s' = cardVersions s)"
proof -
  have upd: "\<exists>s'. boardReducer e s (UPDATE_CARD k u) = Inr s' \<and>
            length (recordedVersions s' k) = length (recordedVersions s k) + 1"
    if "getActiveProject s = Some p" "cards s k = Some c" "plainKey (cardVersions s) k"
    using that by (simp del: boardReducer.simps add: update_card_own recordedVersions_upd)
  have del: "\<exists>s'. boardReducer e s (DELETE_CARD k) = Inr s' \<and>
            length (recordedVersions s' k) = length (recordedVersions s k) + 1"
    if "getActiveProject s = Some p" "cards s k = Some c" "plainKey (cardVersions s) k"
    using delete_card_own[OF that(2,3,1), of e] by (auto simp: recordedVersions_upd)
  have mov: "\<exists>s'. boardReducer e s (MOVE_CARD k toLaneId toIndex) = Inr s' \<and>
            length (recordedVersions s' k) = length (recordedVersions s k) + 1"
    if "getActiveProject s = Some p" "cards s k = Some c" "plainKey (cardVersions s) k"
    using move_card_own[OF that(2,3,1), of e toLaneId toIndex] by (auto simp: recordedVersions_upd)
  have undo: "\<exists>s'. boardReducer e s (UNDO_CARD k) = Inr s' \<and>
               length (recordedVersions s' k) + 1 = length (recordedVersions s k)"
    if "getActiveProject s = Some p" "recordedVersions s k \<noteq> []"
  proof -
    from that(2) obtain vs where vs: "cardVersions s k = Some vs" "vs \<noteq> []"
      by (auto simp: recordedVersions_def split: option.splits)
    from undo_card_active[OF that(1) vs, of e] vs show ?thesis
      by (auto simp: recordedVersions_def)
  qed
  have undo0: "boardReducer e s (UNDO_CARD k) = Inr s" if "recordedVersions s k = []"
    using that by (rule undo_card_empty)
  have add: "\<exists>s'. boardReducer e s (ADD_CARD payload) = Inr s' \<and> cardVersions s' = cardVersions s"
    by (cases "getActiveProject s") (simp_all add: mapActiveProject_Some Let_def)
  have res: "\<exists>s'. boardReducer e s (RESTORE_CARD k) = Inr s' \<and> cardVersions s' = cardVersions s"
    by (cases "getActiveProject s"; cases "jsGet (cards s) k") (simp_all add: Let_def)
  show ?thesis using upd del mov undo undo0 add res by blast
qed

lemma historyBoard_active:
  "getActiveProject historyBoard =
     Some (projectOf ''p1'' [laneTodo\<lparr>l_cardIds := [''c1'']\<rparr>, laneDoing])"
  by (simp add: historyBoard_def twoLaneBoard_def boardOf_def getActiveProject_def projectOf_def)

lemma historyBoard_card: "cards historyBoard ''c1'' = Some (cardIn ''c1'' ''p1'' ''l1'')"
  by (simp add: historyBoard_def twoLaneBoard_def)

lemma historyBoard_versions: "length (recordedVersions historyBoard ''c1'') = 1"
  by (simp add: historyBoard_def recordedVersions_def)

lemma historyBoard_plain: "plainKey (cardVersions historyBoard) ''c1''"
  by (simp add: plainKey_iff historyBoard_def)

lemma trashBoard_restore:
  "boardReducer (mkEnv ''t1'' ''v2'') trashBoard (RESTORE_CARD ''c1'') \<noteq> Inr trashBoard"
proof
  assume "boardReducer (mkEnv ''t1'' ''v2'') trashBoard (RESTORE_CARD ''c1'') = Inr trashBoard"
  then have "map_sum id (\<lambda>s. map_option c_isDeleted (cards s ''c1''))
               (boardReducer (mkEnv ''t1'' ''v2'') trashBoard (RESTORE_CARD ''c1''))
             = Inr (map_option c_isDeleted (cards trashBoard ''c1''))"
    by (simp del: boardReducer.simps)
  then show False
    by (simp add: trashBoard_def historyBoard_def twoLaneBoard_def boardOf_def jsGet_def
          getActiveProject_def projectOf_def cardIn_def Let_def)
qed

text \<open>
  On \<open>historyBoard\<close> the card \<open>c1\<close> has one version: three actions make it two, an
  undo makes it none; the card \<open>c2\<close> has no history and its undo changes nothing. On
  \<open>trashBoard\<close> the deleted card is restored, and the histories stay.
\<close>

theorem version_count_with_active_project_witness:
  "(\<exists>s'. boardReducer (mkEnv ''t1'' ''v2'') historyBoard (UPDATE_CARD ''c1'' makeUrgent) = Inr s' \<and>
         length (recordedVersions s' ''c1'') = 2) \<and>
   (\<exists>s'. boardReducer (mkEnv ''t1'' ''v2'') historyBoard (DELETE_CARD ''c1'') = Inr s' \<and>
         length (recordedVersions s' ''c1'') = 2) \<and>
   (\<exists>s'. boardReducer (mkEnv ''t1'' ''v2'') historyBoard (MOVE_CARD ''c1'' ''l2'' 0) = Inr s' \<and>
         length (recordedVersions s' ''c1'') = 2) \<and>
   (\<exists>s'. boardReducer (mkEnv ''t1'' ''v2'') historyBoard (UNDO_CARD ''c1'') = Inr s' \<and>
         length (recordedVersions s' ''c1'') = 0) \<and>
   boardReducer (mkEnv ''t1'' ''v2'') historyBoard (UNDO_CARD ''c2'') = Inr historyBoard \<and>
   (\<exists>s'. boardReducer (mkEnv ''t1'' ''v2'') historyBoard (ADD_CARD writeSpec) = Inr s' \<and>
         cardVersions s' = cardVersions historyBoard) \<and>
   (\<exists>s'. boardReducer (mkEnv ''t1'' ''v2'') trashBoard (RESTORE_CARD ''c1'') = Inr s' \<and>
         cardVersions s' = cardVersions trashBoard) \<and>
   boardReducer (mkEnv ''t1'' ''v2'') trashBoard (RESTORE_CARD ''c1'') \<noteq> Inr trashBoard"
proof -
  have ne: "recordedVersions historyBoard ''c1'' \<noteq> []"
    using historyBoard_versions by auto
  have e2: "recordedVersions historyBoard ''c2'' = []"
    by (simp add: historyBoard_def twoLaneBoard_def boardOf_def recordedVersions_def)
  show ?thesis
    using version_count_with_active_project
            [of historyBoard "projectOf ''p1'' [laneTodo\<lparr>l_cardIds := [''c1'']\<rparr>, laneDoing]"
                "''c1''" "cardIn ''c1'' ''p1'' ''l1''" "mkEnv ''t1'' ''v2''" makeUrgent
                "''l2''" 0 writeSpec]
          version_count_with_active_project
            [of historyBoard "projectOf ''p1'' [laneTodo\<lparr>l_cardIds := [''c1'']\<rparr>, laneDoing]"
                "''c2''" "cardIn ''c1'' ''p1'' ''l1''" "mkEnv ''t1'' ''v2''" makeUrgent
                "''l2''" 0 writeSpec]
          version_count_with_active_project
            [of trashBoard "projectOf ''p1'' [laneTodo, laneDoing]"
                "''c1''" "cardIn ''c1'' ''p1'' ''l1''" "mkEnv ''t1'' ''v2''" makeUrgent
                "''l2''" 0 writeSpec]
          historyBoard_active historyBoard_card historyBoard_versions historyBoard_plain ne e2
          trashBoard_restore
    by (simp del: boardReducer.simps add: numeral_2_eq_2)
qed

text \<open>
  Claim C2 as stated, for every state. On \<open>inactiveBoard\<close> the card \<open>c1\<close> is in \<^verbatim>\<open>cards\<close>
  with a history of length 1, and after \<^verbatim>\<open>UPDATE_CARD\<close> the length is still 1. On
  \<open>blankIdBoard\<close> the \<^verbatim>\<open>activeProjectId\<close> names the only project, but it is the empty
  string, and \<^verbatim>\<open>UPDATE_CARD\<close> returns the board as it is. On \<open>constructorBoard\<close> there
  is an active project and a card under the key \<open>constructor\<close>, and \<^verbatim>\<open>UPDATE_CARD\<close>
  throws.
\<close>

theorem version_count_without_active_project:
  "cards inactiveBoard ''c1'' = Some (cardIn ''c1'' ''p1'' ''l1'') \<and>
   length (recordedVersions inactiveBoard ''c1'') = 1 \<and>
   map_sum id (\<lambda>s'. length (recordedVersions s' ''c1''))
     (boardReducer (mkEnv ''t1'' ''v2'') inactiveBoard (UPDATE_CARD ''c1'' makeUrgent)) = Inr 1 \<and>
   activeProjectId blankIdBoard = Some [] \<and> map p_id (projects blankIdBoard) = [[]] \<and>
   cards blankIdBoard ''c1'' = Some (cardIn ''c1'' [] ''l1'') \<and>
   boardReducer (mkEnv ''t1'' ''v2'') blankIdBoard (UPDATE_CARD ''c1'' makeUrgent) = Inr blankIdBoard \<and>
   getActiveProject constructorBoard
     = Some (projectOf ''p1'' [laneTodo\<lparr>l_cardIds := [''c1'']\<rparr>, laneDoing]) \<and>
   cards constructorBoard ''constructor'' = Some (cardIn ''constructor'' ''p1'' ''l1'') \<and>
   boardReducer (mkEnv ''t1'' ''v2'') constructorBoard (UPDATE_CARD ''constructor'' makeUrgent)
     = Inl TypeError"
proof -
  have a: "cards inactiveBoard ''c1'' = Some (cardIn ''c1'' ''p1'' ''l1'') \<and>
           length (recordedVersions inactiveBoard ''c1'') = 1 \<and>
           map_sum id (\<lambda>s'. length (recordedVersions s' ''c1''))
             (boardReducer (mkEnv ''t1'' ''v2'') inactiveBoard (UPDATE_CARD ''c1'' makeUrgent)) = Inr 1"
    by (simp add: inactiveBoard_def historyBoard_def twoLaneBoard_def boardOf_def
          recordedVersions_def mapActiveProject_def getActiveProject_def Let_def jsGet_def
          existingVersionsOf_def createCardVersion_def nextVersion_def)
  have b: "activeProjectId blankIdBoard = Some [] \<and> map p_id (projects blankIdBoard) = [[]] \<and>
           cards blankIdBoard ''c1'' = Some (cardIn ''c1'' [] ''l1'') \<and>
           boardReducer (mkEnv ''t1'' ''v2'') blankIdBoard (UPDATE_CARD ''c1'' makeUrgent)
             = Inr blankIdBoard"
    by (simp add: blankIdBoard_def boardOf_def projectOf_def mapActiveProject_def
          getActiveProject_def Let_def jsGet_def objectPrototype_def existingVersionsOf_def
          createCardVersion_def nextVersion_def nextNumber_def)
  have c: "getActiveProject constructorBoard
             = Some (projectOf ''p1'' [laneTodo\<lparr>l_cardIds := [''c1'']\<rparr>, laneDoing]) \<and>
           cards constructorBoard ''constructor'' = Some (cardIn ''constructor'' ''p1'' ''l1'') \<and>
           boardReducer (mkEnv ''t1'' ''v2'') constructorBoard (UPDATE_CARD ''constructor'' makeUrgent)
             = Inl TypeError"
    by (simp add: constructorBoard_def twoLaneBoard_def boardOf_def projectOf_def
          getActiveProject_def Let_def jsGet_def objectPrototype_def existingVersionsOf_def
          createCardVersion_def nextVersion_def)
  from a b c show ?thesis by (simp del: boardReducer.simps)
qed

text \<open>
  On \<open>historyBoard\<close>: the patch makes \<open>c1\<close> urgent, the undo makes it medium again
  and stamps it with the time \<open>t2\<close> of the undo.
\<close>

theorem update_then_undo_restores_witness:
  "\<exists>s1 s2 c2.
     boardReducer (mkEnv ''t1'' ''v2'') historyBoard (UPDATE_CARD ''c1'' makeUrgent) = Inr s1 \<and>
     c_priority (the (cards s1 ''c1'')) = Urgent \<and>
     boardReducer (mkEnv ''t2'' ''v3'') s1 (UNDO_CARD ''c1'') = Inr s2 \<and>
     cards s2 ''c1'' = Some c2 \<and> c_priority c2 = Medium \<and> c_laneId c2 = ''l1'' \<and>
     c_isDeleted c2 = False \<and> c_updatedAt c2 = ''t2''"
proof -
  have act: "getActiveProject historyBoard \<noteq> None"
    by (simp add: historyBoard_active)
  from update_then_undo_restores [OF historyBoard_card historyBoard_plain, of "mkEnv ''t1'' ''v2''" makeUrgent
               "mkEnv ''t2'' ''v3''"] act
  obtain s1 s2 c2 where
    "boardReducer (mkEnv ''t1'' ''v2'') historyBoard (UPDATE_CARD ''c1'' makeUrgent) = Inr s1"
    "boardReducer (mkEnv ''t2'' ''v3'') s1 (UNDO_CARD ''c1'') = Inr s2"
    "cards s2 ''c1'' = Some c2"
    "c_priority c2 = c_priority (cardIn ''c1'' ''p1'' ''l1'')"
    "c_laneId c2 = c_laneId (cardIn ''c1'' ''p1'' ''l1'')"
    "c_isDeleted c2 = c_isDeleted (cardIn ''c1'' ''p1'' ''l1'')"
    "c_updatedAt c2 = now (mkEnv ''t2'' ''v3'')"
    by blast
  moreover from this(1) have "c_priority (the (cards s1 ''c1'')) = Urgent"
    by (auto simp del: boardReducer.simps
          simp add: update_card_own[OF historyBoard_card historyBoard_plain] historyBoard_active
          mergeCard_def makeUrgent_def noUpdates_def orElse_def)
  ultimately show ?thesis
    by (auto simp del: boardReducer.simps simp add: cardIn_def mkEnv_def)
qed

text \<open>
  Claim C3 as stated, for every state. On \<open>inactiveBoard\<close> the update and the undo both
  return the input state, so the card's \<^verbatim>\<open>updatedAt\<close> stays \<open>t0\<close> and is not the time
  \<open>t2\<close> of the undo. On \<open>constructorBoard\<close>, which has an active project and a card
  under the key \<open>constructor\<close>, the update throws and no card is yielded.
\<close>

theorem update_then_undo_without_active_project:
  "runActions inactiveBoard
     [(mkEnv ''t1'' ''v2'', UPDATE_CARD ''c1'' makeUrgent), (mkEnv ''t2'' ''v3'', UNDO_CARD ''c1'')]
     = Inr inactiveBoard \<and>
   map_option c_updatedAt (cards inactiveBoard ''c1'') = Some ''t0'' \<and>
   now (mkEnv ''t2'' ''v3'') = ''t2'' \<and>
   cards constructorBoard ''constructor'' = Some (cardIn ''constructor'' ''p1'' ''l1'') \<and>
   runActions constructorBoard
     [(mkEnv ''t1'' ''v2'', UPDATE_CARD ''constructor'' makeUrgent),
      (mkEnv ''t2'' ''v3'', UNDO_CARD ''constructor'')]
     = Inl TypeError"
proof -
  have a: "runActions inactiveBoard
     [(mkEnv ''t1'' ''v2'', UPDATE_CARD ''c1'' makeUrgent), (mkEnv ''t2'' ''v3'', UNDO_CARD ''c1'')]
     = Inr inactiveBoard \<and>
   map_option c_updatedAt (cards inactiveBoard ''c1'') = Some ''t0'' \<and>
   now (mkEnv ''t2'' ''v3'') = ''t2''"
    by (simp add: inactiveBoard_def historyBoard_def twoLaneBoard_def boardOf_def
          mapActiveProject_def getActiveProject_def Let_def cardIn_def mkEnv_def jsGet_def
          existingVersionsOf_def createCardVersion_def nextVersion_def)
  have b: "cards constructorBoard ''constructor'' = Some (cardIn ''constructor'' ''p1'' ''l1'') \<and>
   runActions constructorBoard
     [(mkEnv ''t1'' ''v2'', UPDATE_CARD ''constructor'' makeUrgent),
      (mkEnv ''t2'' ''v3'', UNDO_CARD ''constructor'')]
     = Inl TypeError"
    by (simp add: constructorBoard_def twoLaneBoard_def boardOf_def Let_def jsGet_def
          objectPrototype_def existingVersionsOf_def createCardVersion_def nextVersion_def)
  from a b show ?thesis by (simp del: boardReducer.simps runActions.simps)
qed

section \<open>The cascade of DELETE_LANE\<close>











section \<open>Totality and structural no-ops\<close>



















section \<open>Invariant I1 along a run\<close>

lemma add_step:
  "boardReducer (mkEnv ''t1'' ''c1'') oneLaneBoard (ADD_CARD writeSpec) =
     Inr (oneLaneBoard
           \<lparr>cards := [''c1'' \<mapsto> (cardIn ''c1'' ''p1'' ''l1'')\<lparr>c_createdAt := ''t1'', c_updatedAt := ''t1''\<rparr>],
            projects := [(projectOf ''p1'' [laneTodo\<lparr>l_cardIds := [''c1'']\<rparr>])\<lparr>p_updatedAt := ''t1''\<rparr>]\<rparr>)"
  by (simp add: oneLaneBoard_def boardOf_def getActiveProject_def mapActiveProject_def
        projectOf_def laneTodo_def writeSpec_def cardIn_def mkEnv_def Let_def)

text \<open>
  Claim C1, invariant I1 after every transition, evaluated on one run. From the board
  with one project and one empty lane, \<^verbatim>\<open>ADD_CARD\<close> puts the new card \<open>c1\<close> into lane
  \<open>l1\<close>, and \<^verbatim>\<open>DELETE_CARD\<close> marks it deleted and takes it out of the lane. Undoing the
  deletion with \<^verbatim>\<open>RESTORE_CARD\<close> puts it back into \<open>l1\<close>; undoing it with \<^verbatim>\<open>UNDO_CARD\<close>
  makes the card live again (\<^verbatim>\<open>isDeleted = false\<close>) but leaves it in no lane's card ids,
  so I1 does not hold for \<open>c1\<close> after that transition.
\<close>

theorem undo_of_delete_breaks_I1:
  "placement ''c1'' (runActions oneLaneBoard [(mkEnv ''t1'' ''c1'', ADD_CARD writeSpec)])
     = Inr (Some False, [(''p1'', ''l1'')], True) \<and>
   placement ''c1'' (runActions oneLaneBoard
       [(mkEnv ''t1'' ''c1'', ADD_CARD writeSpec), (mkEnv ''t2'' ''v1'', DELETE_CARD ''c1'')])
     = Inr (Some True, [], True) \<and>
   placement ''c1'' (runActions oneLaneBoard
       [(mkEnv ''t1'' ''c1'', ADD_CARD writeSpec), (mkEnv ''t2'' ''v1'', DELETE_CARD ''c1''),
        (mkEnv ''t3'' ''v2'', RESTORE_CARD ''c1'')])
     = Inr (Some False, [(''p1'', ''l1'')], True) \<and>
   placement ''c1'' (runActions oneLaneBoard
       [(mkEnv ''t1'' ''c1'', ADD_CARD writeSpec), (mkEnv ''t2'' ''v1'', DELETE_CARD ''c1''),
        (mkEnv ''t3'' ''v2'', UNDO_CARD ''c1'')])
     = Inr (Some False, [], False)"
  unfolding runActions.simps add_step
  by (simp add: placement_def I1_at_def lanesHolding_def oneLaneBoard_def boardOf_def
        getActiveProject_def mapActiveProjectOr_def mapActiveProject_def projectOf_def
        laneTodo_def cardIn_def mkEnv_def Let_def jsGet_def objectPrototype_def
        existingVersionsOf_def createCardVersion_def nextVersion_def nextNumber_def
        appendVersion_def snapshot_def cardData_def cardOfData_def)

text \<open>
  A second run with the same end, made of the gestures of the board view: edit card
  \<open>c1\<close> of lane \<open>l1\<close>, delete lane \<open>l1\<close> (the card moves to \<open>l2\<close>), undo the edit. The undo
  restores the \<^verbatim>\<open>laneId\<close> of the deleted lane and takes the card out of \<open>l2\<close>, so the live
  card is listed in no lane.
\<close>

lemma undo_after_delete_lane_strands_card:
  "placement ''c1'' (Inr twoLaneBoard) = Inr (Some False, [(''p1'', ''l1'')], True) \<and>
   placement ''c1'' (runActions twoLaneBoard
       [(mkEnv ''t1'' ''v1'', UPDATE_CARD ''c1'' makeUrgent), (mkEnv ''t2'' ''x'', DELETE_LANE ''l1'')])
     = Inr (Some False, [(''p1'', ''l2'')], True) \<and>
   placement ''c1'' (runActions twoLaneBoard
       [(mkEnv ''t1'' ''v1'', UPDATE_CARD ''c1'' makeUrgent), (mkEnv ''t2'' ''x'', DELETE_LANE ''l1''),
        (mkEnv ''t3'' ''y'', UNDO_CARD ''c1'')])
     = Inr (Some False, [], False)"
  by (simp add: placement_def I1_at_def lanesHolding_def twoLaneBoard_def boardOf_def
        getActiveProject_def mapActiveProjectOr_def mapActiveProject_def projectOf_def
        laneTodo_def laneDoing_def cardIn_def mkEnv_def Let_def jsGet_def objectPrototype_def
        existingVersionsOf_def createCardVersion_def nextVersion_def nextNumber_def
        appendVersion_def snapshot_def inherited_def cardData_def cardOfData_def mergeCard_def
        makeUrgent_def noUpdates_def orElse_def relaneCards_def enumerate_eq_zip)

section \<open>Normalization of persisted state\<close>

lemma orElse_Some [simp]: "orElse (Some x) d = x"
  by (simp add: orElse_def)

lemma orElse_None [simp]: "orElse None d = d"
  by (simp add: orElse_def)

lemma mapProjectTitle_Some [simp]:
  "mapProjectTitle (\<lambda>t. orElse t d) (mapProjectTitle Some p) = p"
  by (simp add: mapProjectTitle_def orElse_def)

lemma mapCardProjectId_Some [simp]:
  "mapCardProjectId (\<lambda>x. orElse x d) (mapCardProjectId Some c) = c"
  by (simp add: mapCardProjectId_def orElse_def)

lemma mapVersionProjectId_Some [simp]:
  "mapVersionProjectId (\<lambda>x. orElse x d) (mapVersionProjectId Some v) = v"
  by (simp add: mapVersionProjectId_def mapDataProjectId_def orElse_def)

lemma normalizeCards_Some:
  "normalizeCards d (\<lambda>k. map_option (mapCardProjectId Some) (cs k)) = cs"
  by (rule ext) (simp add: normalizeCards_def option.map_comp comp_def option.map_ident)

lemma normalizeVersions_Some:
  "normalizeVersions d cs (\<lambda>k. map_option (map (mapVersionProjectId Some)) (vs k)) = vs"
  by (rule ext)
     (simp add: normalizeVersions_def option.map_comp comp_def option.map_ident Let_def
        map_idI)

text \<open>The active project id is settled: it names a project of the board, or there is no
  project at all.\<close>

lemma normalize_asPersisted:
  assumes "case activeProjectId s of
             None \<Rightarrow> projects s = []
           | Some a \<Rightarrow> list_ex (\<lambda>p. p_id p = a) (projects s)"
  shows "normalizeState e (asPersisted s) = s"
proof -
  have ps: "map (mapProjectTitle (\<lambda>t. orElse t ''Untitled project''))
              (map (mapProjectTitle Some) (projects s)) = projects s"
    by (simp add: comp_def map_idI)
  have act: "(let candidateProjectId =
                   (case activeProjectId s of Some a \<Rightarrow> Some a
                    | None \<Rightarrow> firstProjectId (projects s))
              in if list_ex (\<lambda>project. Some (p_id project) = candidateProjectId) (projects s)
                 then candidateProjectId else firstProjectId (projects s))
             = activeProjectId s"
    using assms
    by (cases "activeProjectId s") (auto simp: firstProjectId_def Let_def list_ex_iff)
  show ?thesis
    using act
    by (simp del: map_map
          add: asPersisted_def ps Let_def normalizeCards_Some normalizeVersions_Some)
qed

lemma normalizeState_settled:
  "case activeProjectId (normalizeState e x) of
     None \<Rightarrow> projects (normalizeState e x) = []
   | Some a \<Rightarrow> list_ex (\<lambda>p. p_id p = a) (projects (normalizeState e x))"
proof (cases x)
  case (Current raw)
  then show ?thesis
    by (cases "r_projects raw")
       (auto simp: Let_def firstProjectId_def list_ex_iff mapProjectTitle_def
             split: option.splits)
next
  case (Legacy raw)
  then show ?thesis by (simp add: Let_def)
qed

text \<open>
  Claim C7. \<^verbatim>\<open>normalizeState\<close> is idempotent: normalizing the result of a normalization,
  of a legacy single-project input or of a multi-project one, gives that result again,
  whatever the clock and the id supply of the second call.
\<close>

theorem normalizeState_idempotent:
  "normalizeState e' (asPersisted (normalizeState e x)) = normalizeState e x"
  by (rule normalize_asPersisted) (rule normalizeState_settled)

text \<open>
  The legacy board \<open>legacyRaw\<close> gets the title of its \<^verbatim>\<open>name\<close>, three default lanes with
  fresh ids and the project id on its card; a second normalization changes nothing.
\<close>

theorem normalizeState_idempotent_witness:
  "normalizeState (mkEnv ''t2'' ''y'') (asPersisted (normalizeState (mkEnv ''t1'' ''x'') (Legacy legacyRaw)))
     = normalizeState (mkEnv ''t1'' ''x'') (Legacy legacyRaw) \<and>
   normalizeState (mkEnv ''t2'' ''y'') (asPersisted (normalizeState (mkEnv ''t1'' ''x'') (Current strayRaw)))
     = normalizeState (mkEnv ''t1'' ''x'') (Current strayRaw) \<and>
   map p_title (projects (normalizeState (mkEnv ''t1'' ''x'') (Legacy legacyRaw))) = [''Old board''] \<and>
   map (map l_id \<circ> p_lanes) (projects (normalizeState (mkEnv ''t1'' ''x'') (Legacy legacyRaw)))
     = [[''x'', ''xx'', ''xxx'']] \<and>
   map_option c_projectId (cards (normalizeState (mkEnv ''t1'' ''x'') (Legacy legacyRaw)) ''c1'')
     = Some ''p1''"
proof -
  have "map p_title (projects (normalizeState (mkEnv ''t1'' ''x'') (Legacy legacyRaw))) = [''Old board'']"
    by (simp add: legacyRaw_def Let_def)
  moreover
  have "map (map l_id \<circ> p_lanes) (projects (normalizeState (mkEnv ''t1'' ''x'') (Legacy legacyRaw)))
     = [[''x'', ''xx'', ''xxx'']]"
    by (simp add: legacyRaw_def Let_def createDefaultLanes_def DEFAULT_LANES_def mkEnv_def
          enumerate_eq_zip upt_rec)
  moreover
  have "map_option c_projectId (cards (normalizeState (mkEnv ''t1'' ''x'') (Legacy legacyRaw)) ''c1'')
     = Some ''p1''"
    by (simp add: legacyRaw_def Let_def normalizeCards_def rawCard_def mapCardProjectId_def)
  ultimately show ?thesis
    using normalizeState_idempotent [of "mkEnv ''t2'' ''y''" "mkEnv ''t1'' ''x''" "Legacy legacyRaw"]
          normalizeState_idempotent [of "mkEnv ''t2'' ''y''" "mkEnv ''t1'' ''x''" "Current strayRaw"]
    by (simp del: normalizeState.simps)
qed

lemma list_ex_ids: "list_ex (\<lambda>project. p_id project = a) ps \<longleftrightarrow> a \<in> p_id ` set ps"
  by (auto simp: list_ex_iff)

lemma firstProjectId_map [simp]:
  "firstProjectId (map (mapProjectTitle f) ps) = firstProjectId ps"
  by (cases ps) (simp_all add: firstProjectId_def mapProjectTitle_def)

lemma ids_mapProjectTitle [simp]:
  "p_id ` mapProjectTitle f ` S = p_id ` S"
  by (simp add: image_image mapProjectTitle_def)

lemma normalize_active:
  "activeProjectId (normalizeState e (Current raw)) =
     (case r_activeProjectId raw of
        Some a \<Rightarrow> if a \<in> p_id ` set (r_projects raw) then Some a
                  else firstProjectId (r_projects raw)
      | None \<Rightarrow> firstProjectId (r_projects raw))"
proof (cases "r_activeProjectId raw")
  case None
  show ?thesis
  proof (cases "firstProjectId (r_projects raw)")
    case n: None
    with None show ?thesis by (simp add: Let_def)
  next
    case (Some a)
    with None show ?thesis by (simp add: Let_def)
  qed
next
  case (Some a)
  then show ?thesis by (simp add: Let_def list_ex_ids)
qed

lemma normalize_cards:
  "cards (normalizeState e (Current raw)) =
     normalizeCards (orElse (activeProjectId (normalizeState e (Current raw))) []) (r_cards raw)"
  by (simp add: Let_def)

lemma normalize_versions:
  "cardVersions (normalizeState e (Current raw)) =
     normalizeVersions (orElse (activeProjectId (normalizeState e (Current raw))) [])
       (cards (normalizeState e (Current raw))) (orElse (r_cardVersions raw) Map.empty)"
  by (simp add: Let_def)

text \<open>
  Claim C8, amended. For a multi-project input, \<^verbatim>\<open>activeProjectId\<close> becomes the raw value
  when it names an existing project, otherwise the first project's id, otherwise
  \<^verbatim>\<open>null\<close>. A card without \<^verbatim>\<open>projectId\<close> gets the resolved active project id, or the
  empty string when that is \<^verbatim>\<open>null\<close>. A version snapshot without \<^verbatim>\<open>projectId\<close> gets the
  normalized \<^verbatim>\<open>projectId\<close> of the card its history is stored under when that card
  exists, and otherwise the resolved active project id, or the empty string when that
  is \<^verbatim>\<open>null\<close>. Every other field, and every \<^verbatim>\<open>projectId\<close> that is present, is kept.
\<close>

theorem normalizeState_multi_project:
  "activeProjectId (normalizeState e (Current raw)) =
     (case r_activeProjectId raw of
        Some a \<Rightarrow> if a \<in> p_id ` set (r_projects raw) then Some a
                  else firstProjectId (r_projects raw)
      | None \<Rightarrow> firstProjectId (r_projects raw))
   \<and> (\<forall>k c. r_cards raw k = Some c \<longrightarrow>
         cards (normalizeState e (Current raw)) k =
           Some (mapCardProjectId
                   (\<lambda>p. case p of
                          Some x \<Rightarrow> x
                        | None \<Rightarrow> (case activeProjectId (normalizeState e (Current raw)) of
                                     Some a \<Rightarrow> a | None \<Rightarrow> []))
                   c))
   \<and> (\<forall>rv k vs. r_cardVersions raw = Some rv \<and> rv k = Some vs \<longrightarrow>
         cardVersions (normalizeState e (Current raw)) k =
           Some (map (mapVersionProjectId
                        (\<lambda>p. case p of
                               Some x \<Rightarrow> x
                             | None \<Rightarrow>
                                 (case cards (normalizeState e (Current raw)) k of
                                    Some c \<Rightarrow> c_projectId c
                                  | None \<Rightarrow>
                                      (case activeProjectId (normalizeState e (Current raw)) of
                                         Some a \<Rightarrow> a | None \<Rightarrow> []))))
                     vs))"
proof (intro conjI allI impI)
  show "activeProjectId (normalizeState e (Current raw)) =
     (case r_activeProjectId raw of
        Some a \<Rightarrow> if a \<in> p_id ` set (r_projects raw) then Some a
                  else firstProjectId (r_projects raw)
      | None \<Rightarrow> firstProjectId (r_projects raw))"
    by (rule normalize_active)
next
  fix k c
  assume "r_cards raw k = Some c"
  then show "cards (normalizeState e (Current raw)) k =
           Some (mapCardProjectId
                   (\<lambda>p. case p of
                          Some x \<Rightarrow> x
                        | None \<Rightarrow> (case activeProjectId (normalizeState e (Current raw)) of
                                     Some a \<Rightarrow> a | None \<Rightarrow> []))
                   c)"
    unfolding normalize_cards
    by (simp add: normalizeCards_def orElse_def cong: option.case_cong)
next
  fix rv k vs
  assume "r_cardVersions raw = Some rv \<and> rv k = Some vs"
  then show "cardVersions (normalizeState e (Current raw)) k =
           Some (map (mapVersionProjectId
                        (\<lambda>p. case p of
                               Some x \<Rightarrow> x
                             | None \<Rightarrow>
                                 (case cards (normalizeState e (Current raw)) k of
                                    Some c \<Rightarrow> c_projectId c
                                  | None \<Rightarrow>
                                      (case activeProjectId (normalizeState e (Current raw)) of
                                         Some a \<Rightarrow> a | None \<Rightarrow> []))))
                     vs)"
    unfolding normalize_versions
    by (simp del: normalizeState.simps add: normalizeVersions_def orElse_def)
qed

lemma strayRaw_eval:
  "r_activeProjectId strayRaw = Some ''p1''"
  "p_id ` set (r_projects strayRaw) = {''p1'', ''p2''}"
  "firstProjectId (r_projects strayRaw) = Some ''p1''"
  "r_cards strayRaw ''c1'' = Some (rawCard ''c1'' (Some ''p2'') ''l2'')"
  "r_cards strayRaw ''c2'' = Some (rawCard ''c2'' None ''l1'')"
  "r_cards strayRaw ''c7'' = None"
  "r_cardVersions strayRaw = Some [''c1'' \<mapsto> [rawVersion ''c1'' None], ''c2'' \<mapsto> [rawVersion ''c2'' None],
                              ''c7'' \<mapsto> [rawVersion ''c7'' None]]"
  by (simp_all add: strayRaw_def firstProjectId_def mapProjectTitle_def projectOf_def)

text \<open>
  On \<open>strayRaw\<close>: the active id \<open>p1\<close> is kept, a stale \<open>p9\<close> falls back to \<open>p1\<close>; card
  \<open>c1\<close> keeps \<open>p2\<close>, card \<open>c2\<close> gets \<open>p1\<close>; the snapshots of \<open>c2\<close> and of the cardless
  \<open>c7\<close> get \<open>p1\<close>.
\<close>

theorem normalizeState_multi_project_witness:
  "activeProjectId (normalizeState (mkEnv ''t1'' ''x'') (Current strayRaw)) = Some ''p1'' \<and>
   activeProjectId (normalizeState (mkEnv ''t1'' ''x'')
       (Current (strayRaw\<lparr>r_activeProjectId := Some ''p9''\<rparr>))) = Some ''p1'' \<and>
   map_option c_projectId (cards (normalizeState (mkEnv ''t1'' ''x'') (Current strayRaw)) ''c1'')
     = Some ''p2'' \<and>
   map_option c_projectId (cards (normalizeState (mkEnv ''t1'' ''x'') (Current strayRaw)) ''c2'')
     = Some ''p1'' \<and>
   map_option (map (d_projectId \<circ> v_data))
       (cardVersions (normalizeState (mkEnv ''t1'' ''x'') (Current strayRaw)) ''c2'')
     = Some [''p1''] \<and>
   map_option (map (d_projectId \<circ> v_data))
       (cardVersions (normalizeState (mkEnv ''t1'' ''x'') (Current strayRaw)) ''c7'')
     = Some [''p1'']"
proof -
  let ?N = "normalizeState (mkEnv ''t1'' ''x'') (Current strayRaw)"
  note t = normalizeState_multi_project [of "mkEnv ''t1'' ''x''" strayRaw]
  note t9 = normalizeState_multi_project [of "mkEnv ''t1'' ''x''" "strayRaw\<lparr>r_activeProjectId := Some ''p9''\<rparr>"]
  note tc = t [THEN conjunct2, THEN conjunct1, rule_format]
  note tv = t [THEN conjunct2, THEN conjunct2, rule_format]
  have a: "activeProjectId ?N = Some ''p1''"
    using t [THEN conjunct1] by (simp del: normalizeState.simps add: strayRaw_eval)
  have a9: "activeProjectId (normalizeState (mkEnv ''t1'' ''x'')
       (Current (strayRaw\<lparr>r_activeProjectId := Some ''p9''\<rparr>))) = Some ''p1''"
    using t9 [THEN conjunct1] by (simp del: normalizeState.simps add: strayRaw_eval)
  have c1: "map_option c_projectId (cards ?N ''c1'') = Some ''p2''"
    using tc [OF strayRaw_eval(4)]
    by (simp del: normalizeState.simps add: rawCard_def mapCardProjectId_def)
  have c2: "map_option c_projectId (cards ?N ''c2'') = Some ''p1''"
    using tc [OF strayRaw_eval(5)] a
    by (simp del: normalizeState.simps add: rawCard_def mapCardProjectId_def)
  have c7: "cards ?N ''c7'' = None"
    by (simp add: normalize_cards normalizeCards_def strayRaw_eval del: normalizeState.simps)
  have "cardVersions ?N ''c2'' =
          Some (map (mapVersionProjectId
                       (\<lambda>p. case p of
                              Some x \<Rightarrow> x
                            | None \<Rightarrow>
                                (case cards ?N ''c2'' of
                                   Some c \<Rightarrow> c_projectId c
                                 | None \<Rightarrow> (case activeProjectId ?N of Some a \<Rightarrow> a | None \<Rightarrow> []))))
                    [rawVersion ''c2'' None])"
    by (rule tv, rule conjI, rule strayRaw_eval(7)) simp
  then have v2: "map_option (map (d_projectId \<circ> v_data)) (cardVersions ?N ''c2'') = Some [''p1'']"
    using c2
    by (cases "cards ?N ''c2''")
       (simp_all del: normalizeState.simps
          add: rawVersion_def mapVersionProjectId_def mapDataProjectId_def)
  have "cardVersions ?N ''c7'' =
          Some (map (mapVersionProjectId
                       (\<lambda>p. case p of
                              Some x \<Rightarrow> x
                            | None \<Rightarrow>
                                (case cards ?N ''c7'' of
                                   Some c \<Rightarrow> c_projectId c
                                 | None \<Rightarrow> (case activeProjectId ?N of Some a \<Rightarrow> a | None \<Rightarrow> []))))
                    [rawVersion ''c7'' None])"
    by (rule tv, rule conjI, rule strayRaw_eval(7)) simp
  then have v7: "map_option (map (d_projectId \<circ> v_data)) (cardVersions ?N ''c7'') = Some [''p1'']"
    by (simp del: normalizeState.simps
          add: c7 a rawVersion_def mapVersionProjectId_def mapDataProjectId_def)
  from a a9 c1 c2 v2 v7 show ?thesis
    by (simp del: normalizeState.simps)
qed

text \<open>
  Claim C8 as stated. On \<open>strayRaw\<close> the resolved active project is \<open>p1\<close>, but the
  snapshot of \<open>c1\<close>, which has no \<^verbatim>\<open>projectId\<close>, gets \<open>p2\<close>, the project of its card.
  On \<open>emptyRaw\<close> the resolved active project is \<^verbatim>\<open>null\<close>, and card \<open>c2\<close> gets the empty
  string.
\<close>

theorem normalizeState_snapshot_follows_card:
  "activeProjectId (normalizeState (mkEnv ''t1'' ''x'') (Current strayRaw)) = Some ''p1'' \<and>
   map (d_projectId \<circ> v_data) [rawVersion ''c1'' None] = [None] \<and>
   map_option (map (d_projectId \<circ> v_data))
       (cardVersions (normalizeState (mkEnv ''t1'' ''x'') (Current strayRaw)) ''c1'')
     = Some [''p2''] \<and>
   activeProjectId (normalizeState (mkEnv ''t1'' ''x'') (Current emptyRaw)) = None \<and>
   map_option c_projectId (cards (normalizeState (mkEnv ''t1'' ''x'') (Current emptyRaw)) ''c2'')
     = Some []"
  by (simp add: strayRaw_def emptyRaw_def Let_def firstProjectId_def mapProjectTitle_def
        projectOf_def normalizeCards_def normalizeVersions_def rawCard_def rawVersion_def
        mapCardProjectId_def mapVersionProjectId_def mapDataProjectId_def)

end
